theory Spec2Isabelle
  imports Complex_Main
begin

section \<open>Python values\<close>

text \<open>
  The exceptions the modelled code can raise by itself (\<^verbatim>\<open>d[k]\<close> on a missing key,
  \<^verbatim>\<open>x.get\<close> on a value that is no dictionary, subscripting, iterating or hashing a
  value that does not support it, a list index out of range), and the exceptions of the
  collaborators, with their class name and \<^verbatim>\<open>str(e)\<close>: \<open>Failure cls msg\<close> is an instance
  of a subclass of \<^verbatim>\<open>Exception\<close>, \<open>BaseFailure cls msg\<close> an instance of a subclass of
  \<^verbatim>\<open>BaseException\<close> that does not derive from \<^verbatim>\<open>Exception\<close>, such as
  \<^verbatim>\<open>asyncio.CancelledError\<close>.
\<close>

datatype exn =
    KeyError string
  | AttributeError
  | TypeError
  | IndexError
  | Failure string string
  | BaseFailure string string

text \<open>\<^verbatim>\<open>isinstance(e, Exception)\<close>, the test of the agent's two result loops and of its
  \<^verbatim>\<open>except Exception\<close> clause.\<close>

fun is_Exception :: "exn \<Rightarrow> bool" where
  "is_Exception (BaseFailure cls msg) = False"
| "is_Exception e = True"

text \<open>The name of the class of an exception.\<close>

fun exn_class :: "exn \<Rightarrow> string" where
  "exn_class (KeyError k) = ''KeyError''"
| "exn_class AttributeError = ''AttributeError''"
| "exn_class TypeError = ''TypeError''"
| "exn_class IndexError = ''IndexError''"
| "exn_class (Failure cls msg) = cls"
| "exn_class (BaseFailure cls msg) = cls"

text \<open>
  The agent passes dictionaries typed \<^verbatim>\<open>Dict[str, Any]\<close> between its phases (the page
  snapshot, the analysis bundle, the configuration). \<open>pyval\<close> is the fragment of Python's
  values those dictionaries hold in this repository: \<^verbatim>\<open>None\<close>, booleans, integers,
  strings, lists, string-keyed dictionaries and exception objects. A dictionary is an
  association list in insertion order; a lookup returns the first entry of a key.
\<close>

datatype pyval =
    PyNone
  | PyBool bool
  | PyInt int
  | PyStr string
  | PyList "pyval list"
  | PyDict "(string \<times> pyval) list"
  | PyExc exn

type_synonym pydict = "(string \<times> pyval) list"

text \<open>\<^verbatim>\<open>d.get(k, default)\<close> and \<^verbatim>\<open>d[k] = v\<close> on a dictionary.\<close>

definition dict_get :: "('k \<times> 'v) list \<Rightarrow> 'k \<Rightarrow> 'v \<Rightarrow> 'v" where
  "dict_get d k dflt = (case map_of d k of None \<Rightarrow> dflt | Some v \<Rightarrow> v)"

fun dict_set :: "'k \<Rightarrow> 'v \<Rightarrow> ('k \<times> 'v) list \<Rightarrow> ('k \<times> 'v) list" where
  "dict_set k v [] = [(k, v)]"
| "dict_set k v ((k', v') # d) =
     (if k' = k then (k, v) # d else (k', v') # dict_set k v d)"

text \<open>\<^verbatim>\<open>x.get(k, default)\<close> on any value: only a dictionary has the method.\<close>

definition py_get :: "pyval \<Rightarrow> string \<Rightarrow> pyval \<Rightarrow> exn + pyval" where
  "py_get x k dflt = (case x of PyDict d \<Rightarrow> Inr (dict_get d k dflt) | _ \<Rightarrow> Inl AttributeError)"

text \<open>\<^verbatim>\<open>x[k]\<close> with a string key: KeyError on a dictionary without the key, TypeError on
  every other value of the fragment.\<close>

definition py_getitem :: "pyval \<Rightarrow> string \<Rightarrow> exn + pyval" where
  "py_getitem x k =
     (case x of
        PyDict d \<Rightarrow> (case map_of d k of None \<Rightarrow> Inl (KeyError k) | Some v \<Rightarrow> Inr v)
      | _ \<Rightarrow> Inl TypeError)"

text \<open>Truth value of a Python value, as \<^verbatim>\<open>if x:\<close> and \<^verbatim>\<open>x or y\<close> test it.\<close>

definition truthy :: "pyval \<Rightarrow> bool" where
  "truthy x =
     (case x of
        PyNone \<Rightarrow> False
      | PyBool b \<Rightarrow> b
      | PyInt n \<Rightarrow> n \<noteq> 0
      | PyStr s \<Rightarrow> s \<noteq> []
      | PyList xs \<Rightarrow> xs \<noteq> []
      | PyDict d \<Rightarrow> d \<noteq> []
      | PyExc e \<Rightarrow> True)"

section \<open>Issues and reports (core/agent.py)\<close>

datatype IssueType = BUG | ACCESSIBILITY | PERFORMANCE | SECURITY | UX | VISUAL

datatype IssueSeverity = LOW | MEDIUM | HIGH | CRITICAL

text \<open>The \<^verbatim>\<open>.value\<close> of each enumeration member.\<close>

fun IssueType_value :: "IssueType \<Rightarrow> string" where
  "IssueType_value BUG = ''bug''"
| "IssueType_value ACCESSIBILITY = ''accessibility''"
| "IssueType_value PERFORMANCE = ''performance''"
| "IssueType_value SECURITY = ''security''"
| "IssueType_value UX = ''user_experience''"
| "IssueType_value VISUAL = ''visual_regression''"

fun IssueSeverity_value :: "IssueSeverity \<Rightarrow> string" where
  "IssueSeverity_value LOW = ''low''"
| "IssueSeverity_value MEDIUM = ''medium''"
| "IssueSeverity_value HIGH = ''high''"
| "IssueSeverity_value CRITICAL = ''critical''"

text \<open>
  An f-string is kept as its parts: literal text and replacement fields, a field holding
  the value that \<^verbatim>\<open>str()\<close> would render.
\<close>

datatype fpart = Lit string | Fmt pyval

type_synonym fstring = "fpart list"

text \<open>
  The dataclass \<^verbatim>\<open>QAIssue\<close>. The fields a detector fills from the snapshot hold whatever
  the snapshot held (\<open>pyval\<close>); \<open>confidence\<close> is the real number the float literal denotes.
\<close>

record QAIssue =
  issue_id :: string
  issue_type :: IssueType
  severity :: IssueSeverity
  title :: string
  description :: pyval
  element_selector :: pyval
  screenshot_path :: pyval
  steps_to_reproduce :: "fstring list"
  expected_behavior :: pyval
  actual_behavior :: pyval
  confidence :: real
  metadata :: pydict

section \<open>Summary statistics: \<open>QAAgent._create_summary\<close>\<close>

record summary =
  total_issues :: int
  by_severity :: "(string \<times> int) list"
  by_type :: "(string \<times> int) list"
  critical_issues :: "(string \<times> string) list list"

text \<open>One iteration of the loop over the issues.\<close>

definition create_summary_step :: "QAIssue \<Rightarrow> summary \<Rightarrow> summary" where
  "create_summary_step issue s =
     (let sev = IssueSeverity_value (severity issue);
          s1 = s\<lparr>by_severity := dict_set sev (dict_get (by_severity s) sev 0 + 1) (by_severity s)\<rparr>;
          ty = IssueType_value (issue_type issue);
          s2 = s1\<lparr>by_type := dict_set ty (dict_get (by_type s1) ty 0 + 1) (by_type s1)\<rparr>
      in if severity issue = CRITICAL
         then s2\<lparr>critical_issues := critical_issues s2 @
                    [[(''title'', title issue), (''type'', IssueType_value (issue_type issue))]]\<rparr>
         else s2)"

fun create_summary_loop :: "QAIssue list \<Rightarrow> summary \<Rightarrow> summary" where
  "create_summary_loop [] s = s"
| "create_summary_loop (issue # issues) s = create_summary_loop issues (create_summary_step issue s)"

definition create_summary :: "QAIssue list \<Rightarrow> summary" where
  "create_summary issues =
     create_summary_loop issues
       \<lparr>total_issues = int (length issues), by_severity = [], by_type = [], critical_issues = []\<rparr>"

section \<open>Scores: \<open>QAAgent._calculate_metrics\<close> and the per-category scores\<close>

definition calculate_accessibility_score :: "QAIssue list \<Rightarrow> int" where
  "calculate_accessibility_score issues =
     (let accessibility_issues = filter (\<lambda>i. issue_type i = ACCESSIBILITY) issues
      in if accessibility_issues = [] then 100
         else let penalty = sum_list (map (\<lambda>issue.
                    if severity issue = CRITICAL then 25
                    else if severity issue = HIGH then 15
                    else if severity issue = MEDIUM then 5 else 1) accessibility_issues)
              in max 0 (100 - penalty))"

definition calculate_security_score :: "QAIssue list \<Rightarrow> int" where
  "calculate_security_score issues =
     (let security_issues = filter (\<lambda>i. issue_type i = SECURITY) issues
      in if security_issues = [] then 100
         else let penalty = sum_list (map (\<lambda>issue.
                    if severity issue = CRITICAL then 40
                    else if severity issue = HIGH then 25
                    else if severity issue = MEDIUM then 10 else 2) security_issues)
              in max 0 (100 - penalty))"

definition calculate_ux_score :: "QAIssue list \<Rightarrow> int" where
  "calculate_ux_score issues =
     (let ux_issues = filter (\<lambda>i. issue_type i = UX) issues
      in if ux_issues = [] then 100
         else let penalty = sum_list (map (\<lambda>issue.
                    if severity issue = CRITICAL then 20
                    else if severity issue = HIGH then 12
                    else if severity issue = MEDIUM then 6 else 2) ux_issues)
              in max 0 (100 - penalty))"

text \<open>
  The metrics dictionary has five fixed keys. Four scores are integers computed from the
  issues (a category without issues returns the float \<^verbatim>\<open>100.0\<close>, the number 100);
  \<open>performance_score\<close> is whatever value the analysis bundle holds.
\<close>

record metrics =
  quality_score :: int
  accessibility_score :: int
  performance_score :: pyval
  security_score :: int
  ux_score :: int

text \<open>
  The entries of the dictionary display are evaluated in order; the lookup of the
  performance score is the only one that can raise (\<^verbatim>\<open>.get\<close> on an entry that is no
  dictionary), and then no metrics are returned.
\<close>

definition calculate_metrics :: "QAIssue list \<Rightarrow> pydict \<Rightarrow> exn + metrics" where
  "calculate_metrics issues analysis =
     (let total = int (length issues);
          critical = int (length (filter (\<lambda>i. severity i = CRITICAL) issues));
          high = int (length (filter (\<lambda>i. severity i = HIGH) issues));
          quality = max 0 (100 - (critical * 25 + high * 10 + total * 2));
          accessibility = calculate_accessibility_score issues
      in case py_get (dict_get analysis ''performance'' (PyDict [])) ''score'' (PyInt 100) of
           Inl e \<Rightarrow> Inl e
         | Inr performance \<Rightarrow>
             Inr \<lparr>quality_score = quality,
                  accessibility_score = accessibility,
                  performance_score = performance,
                  security_score = calculate_security_score issues,
                  ux_score = calculate_ux_score issues\<rparr>)"

section \<open>The accessibility detector (detectors/accessibility_detector.py)\<close>

text \<open>
  \<^verbatim>\<open>__init__\<close>: \<^verbatim>\<open>self.config = config or {}\<close>, then \<^verbatim>\<open>self.config.get('enabled', True)\<close>,
  which raises when the configuration is a true value that is no dictionary.
\<close>

record AccessibilityDetector =
  acc_config :: pyval
  acc_enabled :: pyval

definition AccessibilityDetector_init :: "pyval \<Rightarrow> exn + AccessibilityDetector" where
  "AccessibilityDetector_init cfg =
     (let c = (if truthy cfg then cfg else PyDict [])
      in case py_get c ''enabled'' (PyBool True) of
           Inl e \<Rightarrow> Inl e
         | Inr en \<Rightarrow> Inr \<lparr>acc_config = c, acc_enabled = en\<rparr>)"

definition is_enabled :: "AccessibilityDetector \<Rightarrow> pyval" where
  "is_enabled d = acc_enabled d"

text \<open>
  \<^verbatim>\<open>table.get(key, default)\<close> on a dictionary literal with string keys, for any key
  value: a list or a dictionary is unhashable (TypeError); a hashable value that is no
  string equals no key.
\<close>

definition tag_get :: "(string \<times> 'a) list \<Rightarrow> pyval \<Rightarrow> 'a \<Rightarrow> exn + 'a" where
  "tag_get table key dflt =
     (case key of
        PyStr s \<Rightarrow> Inr (dict_get table s dflt)
      | PyList _ \<Rightarrow> Inl TypeError
      | PyDict _ \<Rightarrow> Inl TypeError
      | _ \<Rightarrow> Inr dflt)"

definition severity_map :: "(string \<times> IssueSeverity) list" where
  "severity_map =
     [(''missing_alt_text'', HIGH),
      (''keyboard_accessibility'', CRITICAL),
      (''color_contrast'', MEDIUM),
      (''heading_structure'', MEDIUM)]"

definition get_issue_title :: "pyval \<Rightarrow> exn + string" where
  "get_issue_title tag =
     tag_get
       [(''missing_alt_text'', ''Image Missing Alt Text''),
        (''keyboard_accessibility'', ''Element Not Keyboard Accessible''),
        (''color_contrast'', ''Insufficient Color Contrast''),
        (''heading_structure'', ''Improper Heading Structure'')]
       tag ''Accessibility Issue''"

definition get_expected_behavior :: "pyval \<Rightarrow> exn + string" where
  "get_expected_behavior tag =
     tag_get
       [(''missing_alt_text'', ''All images should have descriptive alt text''),
        (''keyboard_accessibility'', ''All interactive elements should be keyboard accessible''),
        (''color_contrast'', ''Text should have sufficient contrast ratio (4.5:1 minimum)''),
        (''heading_structure'', ''Headings should follow proper hierarchical structure'')]
       tag ''Element should be accessible''"

definition get_wcag_guideline :: "pyval \<Rightarrow> exn + string" where
  "get_wcag_guideline tag =
     tag_get
       [(''missing_alt_text'', ''WCAG 2.1 - 1.1.1 Non-text Content''),
        (''keyboard_accessibility'', ''WCAG 2.1 - 2.1.1 Keyboard''),
        (''color_contrast'', ''WCAG 2.1 - 1.4.3 Contrast (Minimum)''),
        (''heading_structure'', ''WCAG 2.1 - 1.3.1 Info and Relationships'')]
       tag ''WCAG 2.1''"

text \<open>
  \<^verbatim>\<open>_create_accessibility_issue(issue_data, url)\<close>. \<open>uid\<close> is the string
  \<^verbatim>\<open>str(uuid.uuid4())\<close> returns at this call. The subscripts, lookups and keyword
  arguments are evaluated in the order of the source, so the first failing one decides
  the exception. The float literal \<^verbatim>\<open>0.9\<close> is modelled by the real number 9/10.
\<close>

definition create_accessibility_issue :: "string \<Rightarrow> pyval \<Rightarrow> pyval \<Rightarrow> exn + QAIssue" where
  "create_accessibility_issue uid issue_data url =
     (case py_getitem issue_data ''type'' of Inl e \<Rightarrow> Inl e | Inr tag \<Rightarrow>
     (case py_getitem issue_data ''element'' of Inl e \<Rightarrow> Inl e | Inr element \<Rightarrow>
     (case tag_get severity_map tag MEDIUM of Inl e \<Rightarrow> Inl e | Inr sev \<Rightarrow>
     (case get_issue_title tag of Inl e \<Rightarrow> Inl e | Inr ttl \<Rightarrow>
     (case py_getitem issue_data ''message'' of Inl e \<Rightarrow> Inl e | Inr message \<Rightarrow>
     (case py_get element ''selector'' PyNone of Inl e \<Rightarrow> Inl e | Inr selector \<Rightarrow>
     (case py_get element ''tagName'' (PyStr ''unknown'') of Inl e \<Rightarrow> Inl e | Inr tag_name \<Rightarrow>
     (case get_expected_behavior tag of Inl e \<Rightarrow> Inl e | Inr expected \<Rightarrow>
     (case get_wcag_guideline tag of Inl e \<Rightarrow> Inl e | Inr guideline \<Rightarrow>
        Inr \<lparr>issue_id = uid,
             issue_type = ACCESSIBILITY,
             severity = sev,
             title = ttl,
             description = message,
             element_selector = selector,
             screenshot_path = PyNone,
             steps_to_reproduce =
               [[Lit ''Navigate to '', Fmt url],
                [Lit ''Locate element: '', Fmt tag_name],
                [Lit ''Check accessibility compliance'']],
             expected_behavior = PyStr expected,
             actual_behavior = message,
             confidence = 9 / 10,
             metadata = [(''wcag_guideline'', PyStr guideline), (''element_details'', element)]\<rparr>)))))))))"

text \<open>What a \<^verbatim>\<open>for\<close> loop iterates over: the items of a list, the keys of a dictionary,
  the characters of a string; the other values are not iterable.\<close>

definition py_iter :: "pyval \<Rightarrow> exn + pyval list" where
  "py_iter x =
     (case x of
        PyList xs \<Rightarrow> Inr xs
      | PyDict d \<Rightarrow> Inr (map (\<lambda>kv. PyStr (fst kv)) d)
      | PyStr s \<Rightarrow> Inr (map (\<lambda>c. PyStr [c]) s)
      | _ \<Rightarrow> Inl TypeError)"

text \<open>
  The loop of \<^verbatim>\<open>detect_issues\<close>: \<open>n\<close> counts the identifiers drawn so far from
  \<open>uuids\<close>, the sequence of strings \<^verbatim>\<open>str(uuid.uuid4())\<close> returns. The argument
  \<^verbatim>\<open>page_data['url']\<close> is evaluated at every iteration, before the call. A \<^verbatim>\<open>QAIssue\<close>
  defines neither \<^verbatim>\<open>__bool__\<close> nor \<^verbatim>\<open>__len__\<close>, so \<^verbatim>\<open>if issue:\<close> holds for every
  instance and each created issue is appended.
\<close>

fun detect_issues_loop ::
  "(nat \<Rightarrow> string) \<Rightarrow> nat \<Rightarrow> pydict \<Rightarrow> pyval list \<Rightarrow> QAIssue list \<Rightarrow> exn + QAIssue list" where
  "detect_issues_loop uuids n page_data [] issues = Inr issues"
| "detect_issues_loop uuids n page_data (issue_data # rest) issues =
     (case py_getitem (PyDict page_data) ''url'' of
        Inl e \<Rightarrow> Inl e
      | Inr url \<Rightarrow>
          (case create_accessibility_issue (uuids n) issue_data url of
             Inl e \<Rightarrow> Inl e
           | Inr issue \<Rightarrow> detect_issues_loop uuids (Suc n) page_data rest (issues @ [issue])))"

definition detect_issues :: "(nat \<Rightarrow> string) \<Rightarrow> pydict \<Rightarrow> exn + QAIssue list" where
  "detect_issues uuids page_data =
     (case map_of page_data ''accessibility'' of
        None \<Rightarrow> Inr []
      | Some accessibility_data \<Rightarrow>
          (case py_get accessibility_data ''issues'' (PyList []) of
             Inl e \<Rightarrow> Inl e
           | Inr observations \<Rightarrow>
               (case py_iter observations of
                  Inl e \<Rightarrow> Inl e
                | Inr items \<Rightarrow> detect_issues_loop uuids 0 page_data items [])))"

section \<open>The performance detector (detectors/performance_detector.py)\<close>

record PerformanceDetector =
  perf_config :: pyval

definition PerformanceDetector_init :: "pyval \<Rightarrow> PerformanceDetector" where
  "PerformanceDetector_init cfg = \<lparr>perf_config = (if truthy cfg then cfg else PyDict [])\<rparr>"

definition perf_is_enabled :: "PerformanceDetector \<Rightarrow> pyval" where
  "perf_is_enabled d = PyBool False"

definition perf_detect_issues :: "PerformanceDetector \<Rightarrow> pydict \<Rightarrow> exn + QAIssue list" where
  "perf_detect_issues d page_data = Inr []"

section \<open>The page-data provider (core/web_scraper.py)\<close>

record WebScraper =
  ws_config :: pyval
  viewport :: pyval
  timeout :: pyval

definition WebScraper_init :: "pyval \<Rightarrow> exn + WebScraper" where
  "WebScraper_init cfg =
     (let c = (if truthy cfg then cfg else PyDict [])
      in (case py_get c ''viewport'' (PyDict [(''width'', PyInt 1920), (''height'', PyInt 1080)]) of
            Inl e \<Rightarrow> Inl e
          | Inr vp \<Rightarrow>
              (case py_get c ''timeout'' (PyInt 30000) of
                 Inl e \<Rightarrow> Inl e
               | Inr t \<Rightarrow> Inr \<lparr>ws_config = c, viewport = vp, timeout = t\<rparr>)))"

text \<open>\<^verbatim>\<open>scrape_page\<close> returns a fixed snapshot: only the URL and the viewport vary.\<close>

definition scrape_page :: "WebScraper \<Rightarrow> string \<Rightarrow> pydict \<Rightarrow> exn + pydict" where
  "scrape_page ws url options =
     Inr [(''url'', PyStr url),
          (''title'', PyStr ''Test Page''),
          (''html'', PyStr (''<html><body><h1>Test</h1><img src='' @ CHR 0x22 # ''test.jpg'' @
                            CHR 0x22 # ''><button>Click me</button></body></html>'')),
          (''load_time_ms'', PyInt 500),
          (''viewport'', viewport ws),
          (''accessibility'',
             PyDict [(''issues'',
               PyList [PyDict [(''type'', PyStr ''missing_alt_text''),
                               (''element'', PyDict [(''tagName'', PyStr ''img''),
                                                     (''selector'', PyStr ''img:nth-of-type(1)'')]),
                               (''message'', PyStr ''Image missing alt text'')]])]),
          (''performance'', PyDict [(''score'', PyInt 85)]),
          (''forms'', PyList []),
          (''interactive_elements'', PyList [])]"

text \<open>Constructing the scraper from its configuration and scraping, as one provider.\<close>

definition WebScraper_provider :: "pyval \<Rightarrow> string \<Rightarrow> pydict \<Rightarrow> exn + pydict" where
  "WebScraper_provider cfg url options =
     (case WebScraper_init cfg of
        Inl e \<Rightarrow> Inl e
      | Inr ws \<Rightarrow> scrape_page ws url options)"

section \<open>The orchestrator (core/agent.py, class QAAgent)\<close>

text \<open>
  The registries hold objects of several classes behind two operations. A detector is
  its class name, the value \<^verbatim>\<open>is_enabled()\<close> returns, and the outcome of its
  \<^verbatim>\<open>detect_issues\<close> coroutine on a snapshot: the returned list or the exception raised.
  An analyzer is its class name and the outcome of \<^verbatim>\<open>analyze\<close>. An exception is one
  that \<^verbatim>\<open>asyncio.gather\<close> hands back among the results, deriving from \<^verbatim>\<open>Exception\<close>
  or not.
\<close>

record detector =
  det_class_name :: string
  det_is_enabled :: pyval
  det_detect_issues :: "pydict \<Rightarrow> exn + QAIssue list"

record analyzer =
  ana_class_name :: string
  ana_analyze :: "pydict \<Rightarrow> exn + pyval"

definition accessibility_detector :: "(nat \<Rightarrow> string) \<Rightarrow> AccessibilityDetector \<Rightarrow> detector" where
  "accessibility_detector uuids d =
     \<lparr>det_class_name = ''AccessibilityDetector'',
      det_is_enabled = is_enabled d,
      det_detect_issues = detect_issues uuids\<rparr>"

definition performance_detector :: "PerformanceDetector \<Rightarrow> detector" where
  "performance_detector d =
     \<lparr>det_class_name = ''PerformanceDetector'',
      det_is_enabled = perf_is_enabled d,
      det_detect_issues = perf_detect_issues d\<rparr>"

text \<open>
  \<^verbatim>\<open>_load_detectors\<close>: each detector is built from its own entry of the configuration.
  The modules of \<^verbatim>\<open>VisualDetector\<close> and \<^verbatim>\<open>SecurityDetector\<close> are not part of the
  sources; their constructors are parameters.
\<close>

definition load_detectors ::
  "(pyval \<Rightarrow> exn + detector) \<Rightarrow> (pyval \<Rightarrow> exn + detector) \<Rightarrow> (nat \<Rightarrow> string) \<Rightarrow> pydict
     \<Rightarrow> exn + detector list" where
  "load_detectors VisualDetector SecurityDetector uuids config =
     (case AccessibilityDetector_init (dict_get config ''accessibility'' (PyDict [])) of
        Inl e \<Rightarrow> Inl e
      | Inr a \<Rightarrow>
         (let p = PerformanceDetector_init (dict_get config ''performance'' (PyDict []))
          in (case VisualDetector (dict_get config ''visual'' (PyDict [])) of
                Inl e \<Rightarrow> Inl e
              | Inr v \<Rightarrow>
                 (case SecurityDetector (dict_get config ''security'' (PyDict [])) of
                    Inl e \<Rightarrow> Inl e
                  | Inr s \<Rightarrow>
                      Inr [accessibility_detector uuids a, performance_detector p, v, s]))))"

text \<open>One constructor per logging call of the agent, holding the values its message formats.\<close>

datatype log_entry =
    LogStart string
  | LogDetectorFailed string exn
  | LogAnalyzerFailed string exn
  | LogComplete nat real
  | LogAnalysisFailed string exn

subsection \<open>\<open>_run_detectors\<close>\<close>

text \<open>The first loop: a task is created for each detector whose \<^verbatim>\<open>is_enabled()\<close> is true.\<close>

fun create_tasks :: "detector list \<Rightarrow> detector list \<Rightarrow> detector list" where
  "create_tasks [] tasks = tasks"
| "create_tasks (d # ds) tasks =
     create_tasks ds (if truthy (det_is_enabled d) then tasks @ [d] else tasks)"

text \<open>\<^verbatim>\<open>asyncio.gather(*tasks, return_exceptions=True)\<close>: one outcome per task, in the
  order of the tasks.\<close>

definition gather :: "detector list \<Rightarrow> pydict \<Rightarrow> (exn + QAIssue list) list" where
  "gather tasks page_data = map (\<lambda>d. det_detect_issues d page_data) tasks"

text \<open>
  The second loop, over \<^verbatim>\<open>enumerate(detector_results)\<close>. A result that is an instance
  of \<^verbatim>\<open>Exception\<close> is logged, under the name read from \<^verbatim>\<open>self.detectors[i]\<close>, where
  \<open>i\<close> is the position among the results. Every other result goes to
  \<^verbatim>\<open>all_issues.extend\<close>, which raises TypeError on an exception object, as that is not
  iterable.
\<close>

fun collect_issues ::
  "detector list \<Rightarrow> (nat \<times> (exn + QAIssue list)) list \<Rightarrow> QAIssue list \<Rightarrow> log_entry list
     \<Rightarrow> (exn + QAIssue list) \<times> log_entry list" where
  "collect_issues dets [] all_issues logs = (Inr all_issues, logs)"
| "collect_issues dets ((i, Inl e) # rest) all_issues logs =
     (if is_Exception e
      then (if i < length dets
            then collect_issues dets rest all_issues
                   (logs @ [LogDetectorFailed (det_class_name (dets ! i)) e])
            else (Inl IndexError, logs))
      else (Inl TypeError, logs))"
| "collect_issues dets ((i, Inr result) # rest) all_issues logs =
     collect_issues dets rest (all_issues @ result) logs"

definition run_detectors :: "detector list \<Rightarrow> pydict \<Rightarrow> (exn + QAIssue list) \<times> log_entry list" where
  "run_detectors dets page_data =
     (let tasks = create_tasks dets [];
          detector_results = gather tasks page_data
      in collect_issues dets (enumerate 0 detector_results) [] [])"

subsection \<open>\<open>_run_analyzers\<close>\<close>

text \<open>\<^verbatim>\<open>str.lower()\<close> on a class name, an ASCII identifier.\<close>

definition lower_char :: "char \<Rightarrow> char" where
  "lower_char c =
     dict_get (zip ''ABCDEFGHIJKLMNOPQRSTUVWXYZ'' ''abcdefghijklmnopqrstuvwxyz'') c c"

definition lower :: "string \<Rightarrow> string" where
  "lower s = map lower_char s"

text \<open>
  The loop over \<^verbatim>\<open>enumerate(analyzer_results)\<close>: an instance of \<^verbatim>\<open>Exception\<close> is logged;
  every other result, also an exception object of another class, is filed under the
  lower-cased class name of \<^verbatim>\<open>self.analyzers[i]\<close>.
\<close>

fun combine_results ::
  "analyzer list \<Rightarrow> (nat \<times> (exn + pyval)) list \<Rightarrow> pydict \<Rightarrow> log_entry list
     \<Rightarrow> (exn + pydict) \<times> log_entry list" where
  "combine_results anas [] combined logs = (Inr combined, logs)"
| "combine_results anas ((i, Inl e) # rest) combined logs =
     (if i < length anas
      then (if is_Exception e
            then combine_results anas rest combined
                   (logs @ [LogAnalyzerFailed (ana_class_name (anas ! i)) e])
            else combine_results anas rest
                   (dict_set (lower (ana_class_name (anas ! i))) (PyExc e) combined) logs)
      else (Inl IndexError, logs))"
| "combine_results anas ((i, Inr result) # rest) combined logs =
     (if i < length anas
      then combine_results anas rest
             (dict_set (lower (ana_class_name (anas ! i))) result combined) logs
      else (Inl IndexError, logs))"

definition run_analyzers :: "analyzer list \<Rightarrow> pydict \<Rightarrow> (exn + pydict) \<times> log_entry list" where
  "run_analyzers anas page_data =
     (let analyzer_results = map (\<lambda>a. ana_analyze a page_data) anas
      in combine_results anas (enumerate 0 analyzer_results) [] [])"

subsection \<open>\<open>analyze_website\<close>\<close>

record QAReport =
  report_url :: string
  report_timestamp :: real
  report_issues :: "QAIssue list"
  report_summary :: summary
  report_metrics :: metrics
  report_recommendations :: "string list"
  execution_time_ms :: real

record QAAgent =
  config :: pydict
  detectors :: "detector list"
  analyzers :: "analyzer list"

text \<open>
  What the agent calls outside its own class: the page-data provider (built from the
  \<^verbatim>\<open>scraper\<close> entry of the configuration), the recommendation engine (built from the
  \<^verbatim>\<open>recommendations\<close> entry; its module is not part of the sources) and the clock, whose
  \<open>n\<close>-th reading is \<open>time n\<close>.
\<close>

record collaborators =
  scrape :: "pyval \<Rightarrow> string \<Rightarrow> pydict \<Rightarrow> exn + pydict"
  generate_recommendations :: "pyval \<Rightarrow> QAIssue list \<Rightarrow> pydict \<Rightarrow> exn + string list"
  time :: "nat \<Rightarrow> real"

text \<open>The dictionary display \<^verbatim>\<open>{defaults, **options}\<close>: an option of the caller replaces
  a default in place or is appended.\<close>

definition merge_options :: "pydict \<Rightarrow> pydict" where
  "merge_options options =
     foldl (\<lambda>d kv. dict_set (fst kv) (snd kv) d)
       [(''take_screenshots'', PyBool True),
        (''analyze_accessibility'', PyBool True),
        (''measure_performance'', PyBool True),
        (''extract_forms'', PyBool True),
        (''map_user_flows'', PyBool True)]
       options"

definition collect_page_data :: "collaborators \<Rightarrow> QAAgent \<Rightarrow> string \<Rightarrow> pydict \<Rightarrow> exn + pydict" where
  "collect_page_data c agent url options =
     scrape c (dict_get (config agent) ''scraper'' (PyDict [])) url (merge_options options)"

text \<open>
  The body of the \<^verbatim>\<open>try\<close>, phase after phase; \<open>failed\<close> is how an exception leaves it:
  the clause \<^verbatim>\<open>except Exception\<close> logs an instance of \<^verbatim>\<open>Exception\<close> and raises it
  again with a bare \<^verbatim>\<open>raise\<close>; any other exception passes the clause by.
\<close>

definition failed :: "string \<Rightarrow> exn \<Rightarrow> log_entry list \<Rightarrow> (exn + QAReport) \<times> log_entry list" where
  "failed url e logs =
     (Inl e, if is_Exception e then logs @ [LogAnalysisFailed url e] else logs)"

definition analyze_website ::
  "collaborators \<Rightarrow> QAAgent \<Rightarrow> string \<Rightarrow> pydict \<Rightarrow> (exn + QAReport) \<times> log_entry list" where
  "analyze_website c agent url options =
     (let start_time = time c 0;
          log0 = [LogStart url]
      in (case collect_page_data c agent url options of
            Inl e \<Rightarrow> failed url e log0
          | Inr page_data \<Rightarrow>
             (case run_detectors (detectors agent) page_data of
                (Inl e, log1) \<Rightarrow> failed url e (log0 @ log1)
              | (Inr all_issues, log1) \<Rightarrow>
                 (case run_analyzers (analyzers agent) page_data of
                    (Inl e, log2) \<Rightarrow> failed url e (log0 @ log1 @ log2)
                  | (Inr analysis_results, log2) \<Rightarrow>
                     (case generate_recommendations c
                             (dict_get (config agent) ''recommendations'' (PyDict []))
                             all_issues analysis_results of
                        Inl e \<Rightarrow> failed url e (log0 @ log1 @ log2)
                      | Inr recommendations \<Rightarrow>
                         (let execution_time = (time c 1 - start_time) * 1000;
                              timestamp = time c 2;
                              summ = create_summary all_issues
                          in (case calculate_metrics all_issues analysis_results of
                                Inl e \<Rightarrow> failed url e (log0 @ log1 @ log2)
                              | Inr m \<Rightarrow>
                                  (Inr \<lparr>report_url = url,
                                        report_timestamp = timestamp,
                                        report_issues = all_issues,
                                        report_summary = summ,
                                        report_metrics = m,
                                        report_recommendations = recommendations,
                                        execution_time_ms = execution_time\<rparr>,
                                   log0 @ log1 @ log2 @
                                     [LogComplete (length all_issues) execution_time]))))))))"

section \<open>Notions used to state the properties\<close>

text \<open>
  The lookup of the performance score succeeds when the analysis bundle has no
  \<open>performance\<close> entry or the entry is a dictionary; otherwise \<^verbatim>\<open>.get\<close> raises.
\<close>

definition performance_lookup_ok :: "pydict \<Rightarrow> bool" where
  "performance_lookup_ok analysis =
     (case map_of analysis ''performance'' of
        None \<Rightarrow> True
      | Some (PyDict d) \<Rightarrow> True
      | Some _ \<Rightarrow> False)"

text \<open>
  The scoring rule as the specification words it: three scored categories, a penalty table
  indexed by category and severity, and a score of 100 for a category without issues.
\<close>

datatype category = Accessibility | Security | Ux

fun category_type :: "category \<Rightarrow> IssueType" where
  "category_type Accessibility = ACCESSIBILITY"
| "category_type Security = SECURITY"
| "category_type Ux = UX"

fun spec_penalty :: "category \<Rightarrow> IssueSeverity \<Rightarrow> int" where
  "spec_penalty Accessibility CRITICAL = 25"
| "spec_penalty Accessibility HIGH = 15"
| "spec_penalty Accessibility MEDIUM = 5"
| "spec_penalty Accessibility LOW = 1"
| "spec_penalty Security CRITICAL = 40"
| "spec_penalty Security HIGH = 25"
| "spec_penalty Security MEDIUM = 10"
| "spec_penalty Security LOW = 2"
| "spec_penalty Ux CRITICAL = 20"
| "spec_penalty Ux HIGH = 12"
| "spec_penalty Ux MEDIUM = 6"
| "spec_penalty Ux LOW = 2"

definition spec_category_score :: "category \<Rightarrow> QAIssue list \<Rightarrow> int" where
  "spec_category_score c issues =
     (if category_type c \<in> issue_type ` set issues
      then max 0 (100 - (\<Sum>i \<leftarrow> filter (\<lambda>i. issue_type i = category_type c) issues.
                            spec_penalty c (severity i)))
      else 100)"

text \<open>A score within the range 0 to 100 that the specification gives every score.\<close>

definition spec_score_in_range :: "pyval \<Rightarrow> bool" where
  "spec_score_in_range v = (case v of PyInt n \<Rightarrow> 0 \<le> n \<and> n \<le> 100 | _ \<Rightarrow> False)"

text \<open>The entry of a critical issue in the summary.\<close>

definition critical_entry :: "QAIssue \<Rightarrow> (string \<times> string) list" where
  "critical_entry i = [(''title'', title i), (''type'', IssueType_value (issue_type i))]"

text \<open>An issue with the given type, severity and title, its other fields at their defaults.\<close>

definition sample_issue :: "IssueType \<Rightarrow> IssueSeverity \<Rightarrow> string \<Rightarrow> QAIssue" where
  "sample_issue t s ttl =
     \<lparr>issue_id = ''id'', issue_type = t, severity = s, title = ttl, description = PyStr [],
      element_selector = PyNone, screenshot_path = PyNone, steps_to_reproduce = [],
      expected_behavior = PyNone, actual_behavior = PyNone, confidence = 1, metadata = []\<rparr>"

text \<open>What the analysis phase does with the outcome of one analyzer.\<close>

definition file_result :: "pydict \<Rightarrow> pydict \<Rightarrow> analyzer \<Rightarrow> pydict" where
  "file_result page_data combined a =
     (case ana_analyze a page_data of
        Inl e \<Rightarrow>
          (if is_Exception e then combined
           else dict_set (lower (ana_class_name a)) (PyExc e) combined)
      | Inr v \<Rightarrow> dict_set (lower (ana_class_name a)) v combined)"

text \<open>
  Modelled from the spec: AnalysisFailure, the failure the specification has the analysis
  raise to its caller: an exception of a class of that name. The sources define no such
  class.
\<close>

definition spec_is_AnalysisFailure :: "exn \<Rightarrow> bool" where
  "spec_is_AnalysisFailure e = (exn_class e = ''AnalysisFailure'')"

text \<open>What a detector's outcome adds to the issue list and to the log.\<close>

definition issues_of :: "exn + QAIssue list \<Rightarrow> QAIssue list" where
  "issues_of r = (case r of Inl e \<Rightarrow> [] | Inr xs \<Rightarrow> xs)"

definition failure_of :: "detector list \<Rightarrow> nat \<times> (exn + QAIssue list) \<Rightarrow> log_entry list" where
  "failure_of dets ir =
     (case snd ir of Inl e \<Rightarrow> [LogDetectorFailed (det_class_name (dets ! fst ir)) e] | Inr xs \<Rightarrow> [])"

text \<open>
  A raw observation of the snapshot's accessibility entry, as the provider's interface
  describes it: a dictionary with a type tag (a hashable value, normally a string), an
  element locator (a dictionary) and a message.
\<close>

definition hashable :: "pyval \<Rightarrow> bool" where
  "hashable x = (case x of PyList _ \<Rightarrow> False | PyDict _ \<Rightarrow> False | _ \<Rightarrow> True)"

definition is_dict :: "pyval \<Rightarrow> bool" where
  "is_dict x = (case x of PyDict _ \<Rightarrow> True | _ \<Rightarrow> False)"

definition spec_raw_observation :: "pyval \<Rightarrow> bool" where
  "spec_raw_observation x =
     (case x of
        PyDict d \<Rightarrow>
          (case map_of d ''type'' of Some tag \<Rightarrow> hashable tag | None \<Rightarrow> False) \<and>
          (case map_of d ''element'' of Some el \<Rightarrow> is_dict el | None \<Rightarrow> False) \<and>
          map_of d ''message'' \<noteq> None
      | _ \<Rightarrow> False)"

definition known_tags :: "string list" where
  "known_tags =
     [''missing_alt_text'', ''keyboard_accessibility'', ''color_contrast'', ''heading_structure'']"

text \<open>The \<open>enabled\<close> flag of a detector's options, enabled when the options do not say.\<close>

definition spec_enabled_flag :: "pyval \<Rightarrow> pyval" where
  "spec_enabled_flag cfg =
     (case cfg of PyDict opts \<Rightarrow> dict_get opts ''enabled'' (PyBool True) | _ \<Rightarrow> PyBool True)"

text \<open>
  A small installation: the scraper of the sources as provider, an engine that returns one
  recommendation, a clock, and detectors and analyzers that return or raise as named.
\<close>

definition demo_collaborators :: collaborators where
  "demo_collaborators =
     \<lparr>scrape = WebScraper_provider,
      generate_recommendations = (\<lambda>cfg issues analysis. Inr [''Add alt text to images'']),
      time = (\<lambda>n. real n)\<rparr>"

definition failing_engine :: collaborators where
  "failing_engine =
     demo_collaborators
       \<lparr>generate_recommendations :=
          (\<lambda>cfg issues analysis. Inl (Failure ''RuntimeError'' ''engine unavailable''))\<rparr>"

definition failing_detector :: detector where
  "failing_detector =
     \<lparr>det_class_name = ''VisualDetector'',
      det_is_enabled = PyBool True,
      det_detect_issues = (\<lambda>page_data. Inl (Failure ''RuntimeError'' ''no screenshot''))\<rparr>"

definition demo_accessibility_detector :: detector where
  "demo_accessibility_detector =
     accessibility_detector (\<lambda>n. ''uuid'')
       \<lparr>acc_config = PyDict [], acc_enabled = PyBool True\<rparr>"

definition cancelled_detector :: detector where
  "cancelled_detector =
     \<lparr>det_class_name = ''SecurityDetector'',
      det_is_enabled = PyBool True,
      det_detect_issues = (\<lambda>page_data. Inl (BaseFailure ''CancelledError'' []))\<rparr>"


definition demo_agent :: QAAgent where
  "demo_agent =
     \<lparr>config = [],
      detectors = [performance_detector (PerformanceDetector_init PyNone), failing_detector,
                   demo_accessibility_detector],
      analyzers = []\<rparr>"

definition known_observation :: pyval where
  "known_observation =
     PyDict [(''type'', PyStr ''missing_alt_text''),
             (''element'', PyDict [(''tagName'', PyStr ''img'')]),
             (''message'', PyStr ''Image missing alt text'')]"

definition unknown_observation :: pyval where
  "unknown_observation =
     PyDict [(''type'', PyStr ''aria_role''),
             (''element'', PyDict []),
             (''message'', PyStr ''Unknown role'')]"

definition demo_snapshot :: pydict where
  "demo_snapshot =
     [(''url'', PyStr ''https://example.com''),
      (''accessibility'', PyDict [(''issues'', PyList [known_observation, unknown_observation])])]"

section \<open>Dictionaries\<close>

lemma sum_dict_set_incr:
  "sum_list (map snd (dict_set k (dict_get d k 0 + 1) d)) = sum_list (map snd d) + (1::int)"
proof (induction d)
  case Nil
  show ?case by (simp add: dict_get_def)
next
  case (Cons p d)
  obtain k' v' where p: "p = (k', v')" by (cases p)
  show ?case
  proof (cases "k' = k")
    case True
    with p show ?thesis by (simp add: dict_get_def)
  next
    case False
    have "dict_get (p # d) k 0 = dict_get d k (0::int)"
      using False p by (simp add: dict_get_def)
    with Cons.IH False p show ?thesis by simp
  qed
qed

lemma keys_dict_set: "fst ` set (dict_set k v d) = insert k (fst ` set d)"
proof (induction d)
  case Nil
  show ?case by simp
next
  case (Cons p d)
  then show ?case by (cases p) (auto simp: image_iff)
qed

lemma distinct_dict_set: "distinct (map fst d) \<Longrightarrow> distinct (map fst (dict_set k v d))"
proof (induction d)
  case Nil
  show ?case by simp
next
  case (Cons p d)
  obtain k' v' where p: "p = (k', v')" by (cases p)
  show ?case
  proof (cases "k' = k")
    case True
    with Cons.prems p show ?thesis by simp
  next
    case False
    from Cons.prems p have "k' \<notin> fst ` set d" and "distinct (map fst d)" by auto
    with Cons.IH False p show ?thesis
      by (simp add: keys_dict_set)
  qed
qed

section \<open>The summary\<close>

lemma step_total: "total_issues (create_summary_step i s) = total_issues s"
  by (simp add: create_summary_step_def Let_def)

lemma step_by_severity:
  "sum_list (map snd (by_severity (create_summary_step i s))) = sum_list (map snd (by_severity s)) + 1"
  by (simp add: create_summary_step_def Let_def sum_dict_set_incr)

lemma step_by_type:
  "sum_list (map snd (by_type (create_summary_step i s))) = sum_list (map snd (by_type s)) + 1"
  by (simp add: create_summary_step_def Let_def sum_dict_set_incr)

lemma step_critical:
  "critical_issues (create_summary_step i s) =
     critical_issues s @ map critical_entry (filter (\<lambda>i. severity i = CRITICAL) [i])"
  by (simp add: create_summary_step_def Let_def critical_entry_def)

lemma step_distinct:
  "distinct (map fst (by_severity s)) \<Longrightarrow> distinct (map fst (by_type s)) \<Longrightarrow>
   distinct (map fst (by_severity (create_summary_step i s))) \<and>
   distinct (map fst (by_type (create_summary_step i s)))"
  by (simp add: create_summary_step_def Let_def distinct_dict_set)

lemma loop_invariant:
  "total_issues (create_summary_loop issues s) = total_issues s \<and>
   sum_list (map snd (by_severity (create_summary_loop issues s))) =
     sum_list (map snd (by_severity s)) + int (length issues) \<and>
   sum_list (map snd (by_type (create_summary_loop issues s))) =
     sum_list (map snd (by_type s)) + int (length issues) \<and>
   critical_issues (create_summary_loop issues s) =
     critical_issues s @ map critical_entry (filter (\<lambda>i. severity i = CRITICAL) issues)"
proof (induction issues arbitrary: s)
  case Nil
  show ?case by simp
next
  case (Cons i issues)
  show ?case
    using Cons.IH [of "create_summary_step i s"]
    by (simp add: step_total step_by_severity step_by_type step_critical)
qed

lemma loop_distinct:
  "distinct (map fst (by_severity s)) \<Longrightarrow> distinct (map fst (by_type s)) \<Longrightarrow>
   distinct (map fst (by_severity (create_summary_loop issues s))) \<and>
   distinct (map fst (by_type (create_summary_loop issues s)))"
proof (induction issues arbitrary: s)
  case Nil
  then show ?case by simp
next
  case (Cons i issues)
  from step_distinct [OF Cons.prems] Cons.IH show ?case by simp
qed

text \<open>
  C4. For every issue list, the by-severity counts of its summary add up to
  \<open>total_issues\<close>, which is the length of the list; the by-type counts add up to the same
  total; and \<open>critical_issues\<close> holds the title and type of exactly the critical issues, in
  the order they occur. Both counter dictionaries have one entry per key.
\<close>

theorem summary_counts:
  "sum_list (map snd (by_severity (create_summary issues))) = total_issues (create_summary issues) \<and>
   total_issues (create_summary issues) = int (length issues) \<and>
   sum_list (map snd (by_type (create_summary issues))) = int (length issues) \<and>
   distinct (map fst (by_severity (create_summary issues))) \<and>
   distinct (map fst (by_type (create_summary issues))) \<and>
   critical_issues (create_summary issues) =
     map (\<lambda>i. [(''title'', title i), (''type'', IssueType_value (issue_type i))])
       (filter (\<lambda>i. severity i = CRITICAL) issues)"
proof -
  let ?s0 = "\<lparr>total_issues = int (length issues), by_severity = [], by_type = [], critical_issues = []\<rparr>"
  have inv: "total_issues (create_summary_loop issues ?s0) = total_issues ?s0 \<and>
   sum_list (map snd (by_severity (create_summary_loop issues ?s0))) =
     sum_list (map snd (by_severity ?s0)) + int (length issues) \<and>
   sum_list (map snd (by_type (create_summary_loop issues ?s0))) =
     sum_list (map snd (by_type ?s0)) + int (length issues) \<and>
   critical_issues (create_summary_loop issues ?s0) =
     critical_issues ?s0 @ map critical_entry (filter (\<lambda>i. severity i = CRITICAL) issues)"
    by (rule loop_invariant)
  have dis: "distinct (map fst (by_severity (create_summary_loop issues ?s0))) \<and>
   distinct (map fst (by_type (create_summary_loop issues ?s0)))"
    by (rule loop_distinct) simp_all
  have ce: "critical_entry = (\<lambda>i. [(''title'', title i), (''type'', IssueType_value (issue_type i))])"
    by (rule ext) (simp add: critical_entry_def)
  from inv dis show ?thesis
    unfolding create_summary_def ce by simp
qed

section \<open>The scores\<close>

lemma penalty_acc: "(if s = CRITICAL then 25 else if s = HIGH then 15 else if s = MEDIUM then 5 else (1::int)) = spec_penalty Accessibility s"
  by (cases s) simp_all
lemma penalty_sec: "(if s = CRITICAL then 40 else if s = HIGH then 25 else if s = MEDIUM then 10 else (2::int)) = spec_penalty Security s"
  by (cases s) simp_all
lemma penalty_ux: "(if s = CRITICAL then 20 else if s = HIGH then 12 else if s = MEDIUM then 6 else (2::int)) = spec_penalty Ux s"
  by (cases s) simp_all

lemma filter_empty_image: "(filter (\<lambda>i. f i = t) xs = []) = (t \<notin> f ` set xs)"
  by (auto simp: filter_empty_conv)

text \<open>
  C2. Each of the three category scores computed by the agent is the score of the
  specification's rule: 100 when the list has no issue of the category's type, and
  otherwise 100 minus the penalties of the category's issues, read from the table by
  severity, with a floor at 0.
\<close>

theorem category_scores:
  "calculate_accessibility_score issues = spec_category_score Accessibility issues \<and>
   calculate_security_score issues = spec_category_score Security issues \<and>
   calculate_ux_score issues = spec_category_score Ux issues"
  by (simp add: calculate_accessibility_score_def calculate_security_score_def calculate_ux_score_def
      spec_category_score_def Let_def penalty_acc penalty_sec penalty_ux filter_empty_image)

theorem category_scores_witness:
  "calculate_accessibility_score [sample_issue ACCESSIBILITY HIGH ''a''] = 85 \<and>
   calculate_security_score [sample_issue SECURITY CRITICAL ''s''] = 60 \<and>
   calculate_ux_score [sample_issue BUG LOW ''b''] = 100"
  using category_scores [of "[sample_issue ACCESSIBILITY HIGH ''a'']"]
        category_scores [of "[sample_issue SECURITY CRITICAL ''s'']"]
        category_scores [of "[sample_issue BUG LOW ''b'']"]
  by (simp add: spec_category_score_def sample_issue_def)

lemma length_filter_count: "length (filter (\<lambda>i. f i = v) xs) = count_list (map f xs) v"
  by (induction xs) auto

lemma calculate_metrics_returns:
  assumes "performance_lookup_ok analysis"
  shows "\<exists>m. calculate_metrics issues analysis = Inr m \<and>
           quality_score m =
             max 0 (100 - (int (length (filter (\<lambda>i. severity i = CRITICAL) issues)) * 25
                           + int (length (filter (\<lambda>i. severity i = HIGH) issues)) * 10
                           + int (length issues) * 2)) \<and>
           accessibility_score m = calculate_accessibility_score issues \<and>
           security_score m = calculate_security_score issues \<and>
           ux_score m = calculate_ux_score issues \<and>
           performance_score m =
             (case map_of analysis ''performance'' of
                Some (PyDict d) \<Rightarrow> dict_get d ''score'' (PyInt 100)
              | _ \<Rightarrow> PyInt 100)"
  using assms
  by (auto simp: calculate_metrics_def performance_lookup_ok_def dict_get_def py_get_def Let_def
      split: option.splits pyval.splits)

lemma calculate_metrics_raises:
  assumes "\<not> performance_lookup_ok analysis"
  shows "calculate_metrics issues analysis = Inl AttributeError"
  using assms
  by (auto simp: calculate_metrics_def performance_lookup_ok_def dict_get_def py_get_def Let_def
      split: option.splits pyval.splits)

text \<open>
  C1. Whenever the metrics are computed (the performance lookup does not raise), the
  quality score is \<open>max 0 (100 - (25 c + 10 h + 2 n))\<close>, where \<open>c\<close> and \<open>h\<close> count the
  issues of any type at critical and at high severity and \<open>n\<close> is the length of the list.
  For a list of one accessibility issue at high severity the quality score is 88.
\<close>

theorem quality_score_formula:
  assumes "performance_lookup_ok analysis"
  shows "(\<exists>m. calculate_metrics issues analysis = Inr m \<and>
            quality_score m =
              max 0 (100 - (int (count_list (map severity issues) CRITICAL) * 25
                            + int (count_list (map severity issues) HIGH) * 10
                            + int (length issues) * 2))) \<and>
         (issue_type i = ACCESSIBILITY \<and> severity i = HIGH \<longrightarrow>
            (\<exists>m. calculate_metrics [i] analysis = Inr m \<and> quality_score m = 88))"
proof (intro conjI impI)
  from calculate_metrics_returns [OF assms, of issues]
  show "\<exists>m. calculate_metrics issues analysis = Inr m \<and>
            quality_score m =
              max 0 (100 - (int (count_list (map severity issues) CRITICAL) * 25
                            + int (count_list (map severity issues) HIGH) * 10
                            + int (length issues) * 2))"
    by (auto simp: length_filter_count)
next
  assume "issue_type i = ACCESSIBILITY \<and> severity i = HIGH"
  with calculate_metrics_returns [OF assms, of "[i]"]
  show "\<exists>m. calculate_metrics [i] analysis = Inr m \<and> quality_score m = 88"
    by auto
qed

theorem quality_score_formula_witness:
  "performance_lookup_ok [(''contentanalyzer'', PyNone)] \<and>
   (\<exists>m. calculate_metrics [sample_issue ACCESSIBILITY HIGH ''a''] [(''contentanalyzer'', PyNone)] = Inr m \<and>
        quality_score m = 88) \<and>
   (\<exists>m. calculate_metrics (replicate 10 (sample_issue BUG LOW ''b'')) [(''contentanalyzer'', PyNone)] = Inr m \<and>
        quality_score m = 80)"
proof -
  have ok: "performance_lookup_ok [(''contentanalyzer'', PyNone)]"
    by (simp add: performance_lookup_ok_def)
  have r: "replicate 10 x = [x, x, x, x, x, x, x, x, x, x]" for x :: QAIssue
    by (simp add: numeral_eq_Suc)
  from quality_score_formula [OF ok, of "[sample_issue ACCESSIBILITY HIGH ''a'']"
        "sample_issue ACCESSIBILITY HIGH ''a''"]
       quality_score_formula [OF ok, of "replicate 10 (sample_issue BUG LOW ''b'')"]
  show ?thesis
    using ok by (simp add: sample_issue_def r)
qed

section \<open>The detection phase\<close>

lemma create_tasks_filter:
  "create_tasks dets tasks = tasks @ filter (\<lambda>d. truthy (det_is_enabled d)) dets"
  by (induction dets arbitrary: tasks) simp_all

lemma collect_issues_eq:
  "\<forall>ir \<in> set rs. fst ir < length dets \<Longrightarrow>
   \<forall>ir \<in> set rs. \<forall>e. snd ir = Inl e \<longrightarrow> is_Exception e \<Longrightarrow>
   collect_issues dets rs all_issues logs =
     (Inr (all_issues @ concat (map (\<lambda>ir. issues_of (snd ir)) rs)),
      logs @ concat (map (failure_of dets) rs))"
proof (induction rs arbitrary: all_issues logs)
  case Nil
  show ?case by simp
next
  case (Cons ir rs)
  obtain i r where ir: "ir = (i, r)" by (cases ir)
  from Cons.prems(1) ir have i: "i < length dets" and rest: "\<forall>ir \<in> set rs. fst ir < length dets"
    by auto
  from Cons.prems(2) have rest': "\<forall>ir \<in> set rs. \<forall>e. snd ir = Inl e \<longrightarrow> is_Exception e"
    by simp
  show ?case
  proof (cases r)
    case (Inl e)
    with Cons.prems(2) ir have "is_Exception e" by simp
    with Inl ir i Cons.IH [OF rest rest'] show ?thesis
      by (simp add: issues_of_def failure_of_def)
  next
    case (Inr xs)
    with ir Cons.IH [OF rest rest'] show ?thesis
      by (simp add: issues_of_def failure_of_def)
  qed
qed

lemma enumerate_index_bound: "ir \<in> set (enumerate n xs) \<Longrightarrow> fst ir < n + length xs"
  by (auto simp: in_set_enumerate_eq)

lemma enumerate_member: "ir \<in> set (enumerate n xs) \<Longrightarrow> snd ir \<in> set xs"
proof -
  assume "ir \<in> set (enumerate n xs)"
  then have "snd ir \<in> snd ` set (enumerate n xs)" by (rule imageI)
  also have "snd ` set (enumerate n xs) = set (map snd (enumerate n xs))"
    by (simp only: set_map)
  also have "\<dots> = set xs" by (simp only: map_snd_enumerate)
  finally show ?thesis .
qed

lemma length_create_tasks: "length (create_tasks dets []) \<le> length dets"
  by (simp add: create_tasks_filter)

lemma map_snd_enumerate': "map (\<lambda>ir. f (snd ir)) (enumerate n xs) = map f xs"
  by (induction xs arbitrary: n) simp_all

lemma run_detectors_eq:
  assumes "\<forall>d \<in> set (create_tasks dets []). \<forall>e. det_detect_issues d page_data = Inl e \<longrightarrow> is_Exception e"
  shows "run_detectors dets page_data =
     (Inr (concat (map (\<lambda>d. issues_of (det_detect_issues d page_data)) (create_tasks dets []))),
      concat (map (failure_of dets) (enumerate 0 (gather (create_tasks dets []) page_data))))"
proof -
  let ?rs = "enumerate 0 (gather (create_tasks dets []) page_data)"
  have bound: "\<forall>ir \<in> set ?rs. fst ir < length dets"
  proof
    fix ir assume "ir \<in> set ?rs"
    then have "fst ir < 0 + length (gather (create_tasks dets []) page_data)"
      by (rule enumerate_index_bound)
    also have "\<dots> \<le> length dets"
      using length_create_tasks [of dets] by (simp add: gather_def)
    finally show "fst ir < length dets" .
  qed
  have excs: "\<forall>ir \<in> set ?rs. \<forall>e. snd ir = Inl e \<longrightarrow> is_Exception e"
  proof (intro ballI allI impI)
    fix ir e assume ir: "ir \<in> set ?rs" and e: "snd ir = Inl e"
    from ir have "snd ir \<in> set (gather (create_tasks dets []) page_data)"
      by (rule enumerate_member)
    then obtain d where "d \<in> set (create_tasks dets [])" and "snd ir = det_detect_issues d page_data"
      by (auto simp: gather_def)
    with assms e show "is_Exception e" by simp
  qed
  from bound excs have "collect_issues dets ?rs [] [] =
     (Inr ([] @ concat (map (\<lambda>ir. issues_of (snd ir)) ?rs)), [] @ concat (map (failure_of dets) ?rs))"
    by (rule collect_issues_eq)
  moreover have "map (\<lambda>ir. issues_of (snd ir)) ?rs =
      map (\<lambda>d. issues_of (det_detect_issues d page_data)) (create_tasks dets [])"
    by (simp add: map_snd_enumerate' gather_def comp_def)
  ultimately show ?thesis
    by (simp add: run_detectors_def Let_def)
qed

lemma failure_log_single:
  assumes "\<forall>d' \<in> set (ds1 @ ds2). \<exists>r. det_detect_issues d' page_data = Inr r"
      and "det_detect_issues d page_data = Inl e"
  shows "concat (map (failure_of dets) (enumerate n (gather (ds1 @ d # ds2) page_data))) =
           [LogDetectorFailed (det_class_name (dets ! (n + length ds1))) e]"
  using assms
proof (induction ds1 arbitrary: n)
  case Nil
  have "concat (map (failure_of dets) (enumerate k (gather ds2 page_data))) = []" for k
    using Nil.prems(1)
  proof (induction ds2 arbitrary: k)
    case Nil
    show ?case by (simp add: gather_def)
  next
    case (Cons a ds2)
    then obtain r where "det_detect_issues a page_data = Inr r" by auto
    with Cons show ?case by (simp add: gather_def failure_of_def)
  qed
  with Nil.prems(2) show ?case
    by (simp add: gather_def failure_of_def)
next
  case (Cons a ds1)
  from Cons.prems(1) obtain r where r: "det_detect_issues a page_data = Inr r" by auto
  from Cons.prems(1) have "\<forall>d' \<in> set (ds1 @ ds2). \<exists>r. det_detect_issues d' page_data = Inr r"
    by simp
  from Cons.IH [OF this Cons.prems(2), of "Suc n"] r show ?case
    by (simp add: gather_def failure_of_def)
qed

lemma run_detectors_one_failure:
  assumes tasks: "create_tasks dets [] = ds1 @ d # ds2"
      and fails: "det_detect_issues d page_data = Inl e"
      and exc: "is_Exception e"
      and others: "\<forall>d' \<in> set (ds1 @ ds2). \<exists>r. det_detect_issues d' page_data = Inr r"
  shows "run_detectors dets page_data =
           (Inr (concat (map (\<lambda>d'. projr (det_detect_issues d' page_data)) (ds1 @ ds2))),
            [LogDetectorFailed (det_class_name (dets ! length ds1)) e])"
proof -
  have same: "map (\<lambda>d'. issues_of (det_detect_issues d' page_data)) (ds1 @ ds2) =
              map (\<lambda>d'. projr (det_detect_issues d' page_data)) (ds1 @ ds2)"
  proof (rule map_cong [OF refl])
    fix d' assume "d' \<in> set (ds1 @ ds2)"
    with others obtain r where "det_detect_issues d' page_data = Inr r" by blast
    then show "issues_of (det_detect_issues d' page_data) = projr (det_detect_issues d' page_data)"
      by (simp add: issues_of_def)
  qed
  have "concat (map (\<lambda>d'. issues_of (det_detect_issues d' page_data)) (ds1 @ d # ds2)) =
        concat (map (\<lambda>d'. issues_of (det_detect_issues d' page_data)) (ds1 @ ds2))"
    using fails by (simp add: issues_of_def)
  also note same
  finally have iss: "concat (map (\<lambda>d'. issues_of (det_detect_issues d' page_data)) (ds1 @ d # ds2)) =
        concat (map (\<lambda>d'. projr (det_detect_issues d' page_data)) (ds1 @ ds2))" .
  from failure_log_single [OF others fails, of dets 0]
  have lg: "concat (map (failure_of dets) (enumerate 0 (gather (ds1 @ d # ds2) page_data))) =
           [LogDetectorFailed (det_class_name (dets ! length ds1)) e]" by simp
  have excs: "\<forall>d' \<in> set (create_tasks dets []). \<forall>e'. det_detect_issues d' page_data = Inl e' \<longrightarrow>
                is_Exception e'"
  proof (intro ballI allI impI)
    fix d' e' assume d': "d' \<in> set (create_tasks dets [])" and e': "det_detect_issues d' page_data = Inl e'"
    show "is_Exception e'"
    proof (cases "d' \<in> set (ds1 @ ds2)")
      case True
      with others obtain r where "det_detect_issues d' page_data = Inr r" by blast
      with e' show ?thesis by simp
    next
      case False
      with d' tasks have "d' = d" by auto
      with fails e' exc show ?thesis by simp
    qed
  qed
  show ?thesis
    unfolding run_detectors_eq [OF excs] tasks iss lg ..
qed

section \<open>The analysis phase and the performance score\<close>


lemma combine_results_fold:
  "n + length xs = length anas \<Longrightarrow> drop n anas = xs \<Longrightarrow>
   \<exists>l. combine_results anas (enumerate n (map (\<lambda>a. ana_analyze a page_data) xs)) combined logs =
         (Inr (foldl (file_result page_data) combined xs), l)"
proof (induction xs arbitrary: n combined logs)
  case Nil
  show ?case by simp
next
  case (Cons a xs)
  from Cons.prems(1) have n: "n < length anas" and len: "Suc n + length xs = length anas"
    by simp_all
  from Cons.prems(2) have a: "anas ! n = a" by (rule nth_via_drop)
  have "drop (Suc n) anas = tl (drop n anas)" by (simp add: drop_Suc tl_drop)
  with Cons.prems(2) have rest: "drop (Suc n) anas = xs" by simp
  note IH = Cons.IH [OF len rest]
  show ?case
  proof (cases "ana_analyze a page_data")
    case (Inl e)
    show ?thesis
    proof (cases "is_Exception e")
      case True
      from IH [of combined "logs @ [LogAnalyzerFailed (ana_class_name a) e]"] Inl True n a
      show ?thesis by (simp add: file_result_def)
    next
      case False
      from IH [of "dict_set (lower (ana_class_name a)) (PyExc e) combined" logs] Inl False n a
      show ?thesis by (simp add: file_result_def)
    qed
  next
    case (Inr v)
    from IH [of "dict_set (lower (ana_class_name a)) v combined" logs] Inr n a
    show ?thesis by (simp add: file_result_def)
  qed
qed

lemma run_analyzers_fold:
  "\<exists>l. run_analyzers anas page_data = (Inr (foldl (file_result page_data) [] anas), l)"
  using combine_results_fold [of 0 anas anas page_data "[]" "[]"]
  by (simp add: run_analyzers_def)

lemma file_result_keys:
  "fst ` set (file_result page_data combined a) \<subseteq> insert (lower (ana_class_name a)) (fst ` set combined)"
proof (cases "ana_analyze a page_data")
  case (Inl e)
  then show ?thesis
    by (cases "is_Exception e") (auto simp: file_result_def keys_dict_set)
next
  case (Inr v)
  then show ?thesis by (auto simp: file_result_def keys_dict_set)
qed

lemma foldl_file_result_keys:
  "fst ` set (foldl (file_result page_data) combined xs) \<subseteq>
     fst ` set combined \<union> (\<lambda>a. lower (ana_class_name a)) ` set xs"
proof (induction xs arbitrary: combined)
  case Nil
  show ?case by simp
next
  case (Cons a xs)
  from Cons.IH [of "file_result page_data combined a"] file_result_keys [of page_data combined a]
  show ?case by auto
qed

lemma run_analyzers_total:
  "\<exists>b l. run_analyzers anas page_data = (Inr b, l) \<and>
         fst ` set b \<subseteq> (\<lambda>a. lower (ana_class_name a)) ` set anas"
proof -
  from run_analyzers_fold [of anas page_data] obtain l where
    "run_analyzers anas page_data = (Inr (foldl (file_result page_data) [] anas), l)" ..
  moreover have "fst ` set (foldl (file_result page_data) [] anas) \<subseteq>
      (\<lambda>a. lower (ana_class_name a)) ` set anas"
    using foldl_file_result_keys [of page_data "[]" anas] by simp
  ultimately show ?thesis by blast
qed




lemma performance_score_default:
  assumes "''performance'' \<notin> fst ` set analysis"
  shows "\<exists>m. calculate_metrics issues analysis = Inr m \<and> performance_score m = PyInt 100"
proof -
  from assms have "map_of analysis ''performance'' = None"
    by (simp add: map_of_eq_None_iff)
  then show ?thesis
    by (simp add: calculate_metrics_def dict_get_def py_get_def Let_def)
qed

lemma performance_score_never_sourced:
  assumes "\<forall>a \<in> set anas. lower (ana_class_name a) \<noteq> ''performance''"
      and "fst (run_analyzers anas page_data) = Inr analysis"
  shows "\<exists>m. calculate_metrics issues analysis = Inr m \<and> performance_score m = PyInt 100"
proof -
  from run_analyzers_total [of anas page_data] obtain b l where
    "run_analyzers anas page_data = (Inr b, l)" and
    "fst ` set b \<subseteq> (\<lambda>a. lower (ana_class_name a)) ` set anas" by blast
  with assms(2)
  have "fst ` set analysis \<subseteq> (\<lambda>a. lower (ana_class_name a)) ` set anas" by simp
  with assms(1) have "''performance'' \<notin> fst ` set analysis" by auto
  then show ?thesis by (rule performance_score_default)
qed


lemma demo_scrape:
  "WebScraper_provider (PyDict []) url options =
     Inr [(''url'', PyStr url),
          (''title'', PyStr ''Test Page''),
          (''html'', PyStr (''<html><body><h1>Test</h1><img src='' @ CHR 0x22 # ''test.jpg'' @
                            CHR 0x22 # ''><button>Click me</button></body></html>'')),
          (''load_time_ms'', PyInt 500),
          (''viewport'', PyDict [(''width'', PyInt 1920), (''height'', PyInt 1080)]),
          (''accessibility'',
             PyDict [(''issues'',
               PyList [PyDict [(''type'', PyStr ''missing_alt_text''),
                               (''element'', PyDict [(''tagName'', PyStr ''img''),
                                                     (''selector'', PyStr ''img:nth-of-type(1)'')]),
                               (''message'', PyStr ''Image missing alt text'')]])]),
          (''performance'', PyDict [(''score'', PyInt 85)]),
          (''forms'', PyList []),
          (''interactive_elements'', PyList [])]"
  by (simp add: WebScraper_provider_def WebScraper_init_def scrape_page_def py_get_def truthy_def
      dict_get_def)

lemma run_detectors_Nil: "run_detectors [] page_data = (Inr [], [])"
  by (simp add: run_detectors_def gather_def)




section \<open>The run\<close>

text \<open>
  C7, as the code has it. When the acquisition of the page data fails with \<open>e\<close>, or the
  acquisition and the detection phase succeed and the recommendation engine fails with
  \<open>e\<close> on the aggregated issues and the analysis bundle, \<open>analyze_website\<close> fails with
  that same \<open>e\<close>, unwrapped, after logging it when it is an instance of \<^verbatim>\<open>Exception\<close>,
  and returns no report. The counterexample is a run whose caller receives the
  AttributeError of the acquisition, and one whose caller receives the RuntimeError of
  the engine, neither of them an AnalysisFailure.
\<close>

theorem fatal_failures_propagate:
  "(collect_page_data c agent url options = Inl e \<longrightarrow>
      analyze_website c agent url options =
        (Inl e, [LogStart url] @ (if is_Exception e then [LogAnalysisFailed url e] else []))) \<and>
   (collect_page_data c agent url options = Inr page_data \<and>
    run_detectors (detectors agent) page_data = (Inr all_issues, log1) \<and>
    generate_recommendations c (dict_get (config agent) ''recommendations'' (PyDict []))
      all_issues (projr (fst (run_analyzers (analyzers agent) page_data))) = Inl e \<longrightarrow>
      analyze_website c agent url options =
        (Inl e, [LogStart url] @ log1 @ snd (run_analyzers (analyzers agent) page_data) @
                (if is_Exception e then [LogAnalysisFailed url e] else [])))"
proof (intro conjI impI)
  assume "collect_page_data c agent url options = Inl e"
  then show "analyze_website c agent url options =
        (Inl e, [LogStart url] @ (if is_Exception e then [LogAnalysisFailed url e] else []))"
    by (simp add: analyze_website_def failed_def)
next
  assume a: "collect_page_data c agent url options = Inr page_data \<and>
    run_detectors (detectors agent) page_data = (Inr all_issues, log1) \<and>
    generate_recommendations c (dict_get (config agent) ''recommendations'' (PyDict []))
      all_issues (projr (fst (run_analyzers (analyzers agent) page_data))) = Inl e"
  obtain b l2 where an: "run_analyzers (analyzers agent) page_data = (Inr b, l2)"
    using run_analyzers_total [of "analyzers agent" page_data] by blast
  from a an show "analyze_website c agent url options =
        (Inl e, [LogStart url] @ log1 @ snd (run_analyzers (analyzers agent) page_data) @
                (if is_Exception e then [LogAnalysisFailed url e] else []))"
    by (simp add: analyze_website_def failed_def)
qed

lemma scraper_config_not_a_dict: "WebScraper_provider (PyInt 5) url options = Inl AttributeError"
  by (simp add: WebScraper_provider_def WebScraper_init_def py_get_def truthy_def)

lemma run_analyzers_Nil: "run_analyzers [] page_data = (Inr [], [])"
  by (simp add: run_analyzers_def)

lemma acquisition_failure_run:
  "analyze_website demo_collaborators
     \<lparr>config = [(''scraper'', PyInt 5)], detectors = [], analyzers = []\<rparr> ''https://example.com'' [] =
     (Inl AttributeError,
      [LogStart ''https://example.com'', LogAnalysisFailed ''https://example.com'' AttributeError])"
  by (simp add: analyze_website_def failed_def collect_page_data_def demo_collaborators_def
      dict_get_def scraper_config_not_a_dict)

lemma engine_failure_run:
  "analyze_website failing_engine
     \<lparr>config = [], detectors = [], analyzers = []\<rparr> ''https://example.com'' [] =
     (Inl (Failure ''RuntimeError'' ''engine unavailable''),
      [LogStart ''https://example.com'',
       LogAnalysisFailed ''https://example.com'' (Failure ''RuntimeError'' ''engine unavailable'')])"
  by (simp add: analyze_website_def failed_def collect_page_data_def failing_engine_def
      demo_collaborators_def dict_get_def demo_scrape run_detectors_Nil run_analyzers_Nil)

theorem fatal_failures_propagate_witness:
  "analyze_website demo_collaborators
     \<lparr>config = [(''scraper'', PyInt 5)], detectors = [], analyzers = []\<rparr> ''https://example.com'' [] =
     (Inl AttributeError,
      [LogStart ''https://example.com'', LogAnalysisFailed ''https://example.com'' AttributeError]) \<and>
   analyze_website failing_engine
     \<lparr>config = [], detectors = [], analyzers = []\<rparr> ''https://example.com'' [] =
     (Inl (Failure ''RuntimeError'' ''engine unavailable''),
      [LogStart ''https://example.com'',
       LogAnalysisFailed ''https://example.com'' (Failure ''RuntimeError'' ''engine unavailable'')])"
proof -
  let ?a1 = "\<lparr>config = [(''scraper'', PyInt 5)], detectors = [], analyzers = []\<rparr>"
  let ?a2 = "\<lparr>config = [], detectors = [], analyzers = []\<rparr>"
  let ?e = "Failure ''RuntimeError'' ''engine unavailable''"
  have h1: "collect_page_data demo_collaborators ?a1 ''https://example.com'' [] = Inl AttributeError"
    by (simp add: collect_page_data_def demo_collaborators_def dict_get_def scraper_config_not_a_dict)
  obtain page where h2: "collect_page_data failing_engine ?a2 ''https://example.com'' [] = Inr page"
    by (simp add: collect_page_data_def failing_engine_def demo_collaborators_def dict_get_def
        demo_scrape)
  have h3: "run_detectors (detectors ?a2) page = (Inr [], [])"
    by (simp add: run_detectors_Nil)
  have h4: "generate_recommendations failing_engine
              (dict_get (config ?a2) ''recommendations'' (PyDict [])) []
              (projr (fst (run_analyzers (analyzers ?a2) page))) = Inl ?e"
    by (simp add: failing_engine_def)
  from fatal_failures_propagate [of demo_collaborators ?a1 "''https://example.com''" "[]"
         AttributeError] h1
  have w1: "analyze_website demo_collaborators ?a1 ''https://example.com'' [] =
     (Inl AttributeError,
      [LogStart ''https://example.com'', LogAnalysisFailed ''https://example.com'' AttributeError])"
    by simp
  from fatal_failures_propagate [of failing_engine ?a2 "''https://example.com''" "[]" ?e page
         "[]" "[]"] h2 h3 h4
  have w2: "analyze_website failing_engine ?a2 ''https://example.com'' [] =
     (Inl ?e, [LogStart ''https://example.com'', LogAnalysisFailed ''https://example.com'' ?e])"
    by (simp add: run_analyzers_Nil)
  from w1 w2 show ?thesis by (rule conjI)
qed

theorem fatal_failures_propagate_counterexample:
  "fst (analyze_website demo_collaborators
          \<lparr>config = [(''scraper'', PyInt 5)], detectors = [], analyzers = []\<rparr>
          ''https://example.com'' []) = Inl AttributeError \<and>
   \<not> spec_is_AnalysisFailure AttributeError \<and>
   fst (analyze_website failing_engine
          \<lparr>config = [], detectors = [], analyzers = []\<rparr> ''https://example.com'' []) =
     Inl (Failure ''RuntimeError'' ''engine unavailable'') \<and>
   \<not> spec_is_AnalysisFailure (Failure ''RuntimeError'' ''engine unavailable'')"
  by (simp add: acquisition_failure_run engine_failure_run spec_is_AnalysisFailure_def)

text \<open>
  C6, as the code has it. When exactly one of the launched detectors raises an instance of
  \<^verbatim>\<open>Exception\<close> and the others return, the detection phase returns the concatenation of
  the others' outputs, in the order of the registry, and logs one failure; with a provider
  and an engine that succeed and metrics that can be computed, the run returns a report
  holding those issues. The name logged is read from the registry at the failing task's
  position among the launched tasks. The counterexample is a detector that ends in
  \<^verbatim>\<open>asyncio.CancelledError\<close>, which is no instance of \<^verbatim>\<open>Exception\<close>: the detection phase
  raises TypeError and the run fails.
\<close>

theorem detector_failure_isolated:
  assumes tasks: "create_tasks (detectors agent) [] = ds1 @ d # ds2"
      and fails: "det_detect_issues d page_data = Inl e"
      and exc: "is_Exception e"
      and others: "\<forall>d' \<in> set (ds1 @ ds2). \<exists>r. det_detect_issues d' page_data = Inr r"
      and page: "collect_page_data c agent url options = Inr page_data"
      and analysis: "fst (run_analyzers (analyzers agent) page_data) = Inr analysis"
      and recs: "generate_recommendations c (dict_get (config agent) ''recommendations'' (PyDict []))
                   (concat (map (\<lambda>d'. projr (det_detect_issues d' page_data)) (ds1 @ ds2))) analysis
                 = Inr recommendations"
      and perf: "performance_lookup_ok analysis"
  shows "run_detectors (detectors agent) page_data =
           (Inr (concat (map (\<lambda>d'. projr (det_detect_issues d' page_data)) (ds1 @ ds2))),
            [LogDetectorFailed (det_class_name (detectors agent ! length ds1)) e]) \<and>
         (\<exists>report. fst (analyze_website c agent url options) = Inr report \<and>
            report_issues report =
              concat (map (\<lambda>d'. projr (det_detect_issues d' page_data)) (ds1 @ ds2)))"
proof
  let ?issues = "concat (map (\<lambda>d'. projr (det_detect_issues d' page_data)) (ds1 @ ds2))"
  show rd: "run_detectors (detectors agent) page_data =
           (Inr ?issues, [LogDetectorFailed (det_class_name (detectors agent ! length ds1)) e])"
    using tasks fails exc others by (rule run_detectors_one_failure)
  obtain l2 where an: "run_analyzers (analyzers agent) page_data = (Inr analysis, l2)"
    using analysis by (cases "run_analyzers (analyzers agent) page_data") simp
  obtain m where m: "calculate_metrics ?issues analysis = Inr m"
    using calculate_metrics_returns [OF perf, of ?issues] by blast
  show "\<exists>report. fst (analyze_website c agent url options) = Inr report \<and>
            report_issues report = ?issues"
    using page rd an recs m
    by (simp add: analyze_website_def Let_def)
qed

lemma demo_detect:
  "\<exists>issue. detect_issues (\<lambda>n. ''uuid'')
             (projr (WebScraper_provider (PyDict []) ''https://example.com'' options)) = Inr [issue] \<and>
           title issue = ''Image Missing Alt Text'' \<and> severity issue = HIGH"
  by (simp add: demo_scrape detect_issues_def py_get_def dict_get_def py_iter_def py_getitem_def
      create_accessibility_issue_def tag_get_def severity_map_def get_issue_title_def
      get_expected_behavior_def get_wcag_guideline_def)

theorem detector_failure_isolated_witness:
  "\<exists>page issue.
     collect_page_data demo_collaborators demo_agent ''https://example.com'' [] = Inr page \<and>
     create_tasks (detectors demo_agent) [] = [failing_detector, demo_accessibility_detector] \<and>
     det_detect_issues failing_detector page = Inl (Failure ''RuntimeError'' ''no screenshot'') \<and>
     det_detect_issues demo_accessibility_detector page = Inr [issue] \<and>
     run_detectors (detectors demo_agent) page =
       (Inr [issue], [LogDetectorFailed ''PerformanceDetector'' (Failure ''RuntimeError'' ''no screenshot'')]) \<and>
     (\<exists>report. fst (analyze_website demo_collaborators demo_agent ''https://example.com'' []) = Inr report \<and>
        report_issues report = [issue])"
proof -
  let ?page = "projr (WebScraper_provider (PyDict []) ''https://example.com'' (merge_options []))"
  let ?e = "Failure ''RuntimeError'' ''no screenshot''"
  from demo_detect [of "merge_options []"] obtain issue where
    issue: "detect_issues (\<lambda>n. ''uuid'') ?page = Inr [issue]" by blast
  have page: "collect_page_data demo_collaborators demo_agent ''https://example.com'' [] = Inr ?page"
    by (simp add: collect_page_data_def demo_collaborators_def demo_agent_def dict_get_def demo_scrape)
  have tasks: "create_tasks (detectors demo_agent) [] = [] @ failing_detector # [demo_accessibility_detector]"
    by (simp add: demo_agent_def performance_detector_def perf_is_enabled_def failing_detector_def
        demo_accessibility_detector_def accessibility_detector_def is_enabled_def truthy_def)
  have fails: "det_detect_issues failing_detector ?page = Inl ?e"
    by (simp add: failing_detector_def)
  have exc: "is_Exception ?e" by simp
  have acc: "det_detect_issues demo_accessibility_detector ?page = Inr [issue]"
    using issue by (simp add: demo_accessibility_detector_def accessibility_detector_def)
  then have others: "\<forall>d' \<in> set ([] @ [demo_accessibility_detector]). \<exists>r. det_detect_issues d' ?page = Inr r"
    by simp
  have analysis: "fst (run_analyzers (analyzers demo_agent) ?page) = Inr []"
    by (simp add: demo_agent_def run_analyzers_Nil)
  have recs: "generate_recommendations demo_collaborators
                (dict_get (config demo_agent) ''recommendations'' (PyDict []))
                (concat (map (\<lambda>d'. projr (det_detect_issues d' ?page)) ([] @ [demo_accessibility_detector])))
                []
              = Inr [''Add alt text to images'']"
    by (simp add: demo_collaborators_def)
  have perf: "performance_lookup_ok []"
    by (simp add: performance_lookup_ok_def)
  have name: "det_class_name (detectors demo_agent ! 0) = ''PerformanceDetector''"
    by (simp add: demo_agent_def performance_detector_def)
  from detector_failure_isolated [OF tasks fails exc others page analysis recs perf]
  have "run_detectors (detectors demo_agent) ?page =
       (Inr [issue], [LogDetectorFailed ''PerformanceDetector'' ?e]) \<and>
     (\<exists>report. fst (analyze_website demo_collaborators demo_agent ''https://example.com'' []) = Inr report \<and>
        report_issues report = [issue])"
    by (simp add: acc name)
  with page tasks fails acc show ?thesis by auto
qed

lemma cancelled_run_detectors:
  "run_detectors [cancelled_detector, demo_accessibility_detector] page_data = (Inl TypeError, [])"
  by (simp add: run_detectors_def gather_def cancelled_detector_def demo_accessibility_detector_def
      accessibility_detector_def is_enabled_def truthy_def)

theorem detector_failure_isolated_counterexample:
  "create_tasks [cancelled_detector, demo_accessibility_detector] [] =
     [cancelled_detector, demo_accessibility_detector] \<and>
   det_detect_issues cancelled_detector demo_snapshot = Inl (BaseFailure ''CancelledError'' []) \<and>
   length (projr (det_detect_issues demo_accessibility_detector demo_snapshot)) = 2 \<and>
   \<not> isl (det_detect_issues demo_accessibility_detector demo_snapshot) \<and>
   run_detectors [cancelled_detector, demo_accessibility_detector] demo_snapshot =
     (Inl TypeError, []) \<and>
   analyze_website demo_collaborators
     \<lparr>config = [], detectors = [cancelled_detector, demo_accessibility_detector], analyzers = []\<rparr>
     ''https://example.com'' [] =
     (Inl TypeError,
      [LogStart ''https://example.com'', LogAnalysisFailed ''https://example.com'' TypeError])"
proof -
  have t: "create_tasks [cancelled_detector, demo_accessibility_detector] [] =
     [cancelled_detector, demo_accessibility_detector]"
    by (simp add: cancelled_detector_def demo_accessibility_detector_def
        accessibility_detector_def is_enabled_def truthy_def)
  have c: "det_detect_issues cancelled_detector demo_snapshot = Inl (BaseFailure ''CancelledError'' [])"
    by (simp add: cancelled_detector_def)
  have "\<exists>i1 i2. det_detect_issues demo_accessibility_detector demo_snapshot = Inr [i1, i2]"
    by (simp add: demo_accessibility_detector_def accessibility_detector_def demo_snapshot_def
        known_observation_def unknown_observation_def detect_issues_def py_get_def dict_get_def
        py_iter_def py_getitem_def create_accessibility_issue_def tag_get_def severity_map_def
        get_issue_title_def get_expected_behavior_def get_wcag_guideline_def)
  then have a: "length (projr (det_detect_issues demo_accessibility_detector demo_snapshot)) = 2"
    and b: "\<not> isl (det_detect_issues demo_accessibility_detector demo_snapshot)"
    by auto
  have r: "analyze_website demo_collaborators
     \<lparr>config = [], detectors = [cancelled_detector, demo_accessibility_detector], analyzers = []\<rparr>
     ''https://example.com'' [] =
     (Inl TypeError,
      [LogStart ''https://example.com'', LogAnalysisFailed ''https://example.com'' TypeError])"
    by (simp add: analyze_website_def failed_def collect_page_data_def demo_collaborators_def
        dict_get_def demo_scrape cancelled_run_detectors)
  from t c a b cancelled_run_detectors [of demo_snapshot] r show ?thesis by simp
qed

section \<open>The accessibility detector\<close>

lemma tag_get_hashable: "hashable tag \<Longrightarrow> \<exists>v. tag_get table tag dflt = Inr v"
  by (cases tag) (simp_all add: tag_get_def hashable_def)

lemma tag_get_unknown:
  "tag_get table tag dflt = Inr v \<Longrightarrow> tag \<notin> PyStr ` fst ` set table \<Longrightarrow> v = dflt"
proof (cases tag)
  case (PyStr s)
  assume a: "tag_get table tag dflt = Inr v" and b: "tag \<notin> PyStr ` fst ` set table"
  from b PyStr have "s \<notin> fst ` set table" by auto
  then have "map_of table s = None" by (simp add: map_of_eq_None_iff)
  with a PyStr show ?thesis by (simp add: tag_get_def dict_get_def)
qed (auto simp: tag_get_def)

lemma case_sum_Inr_iff:
  "((case x of Inl e \<Rightarrow> Inl e | Inr v \<Rightarrow> f v) = Inr y) = (\<exists>v. x = Inr v \<and> f v = Inr y)"
  by (cases x) simp_all

lemma create_issue_fields:
  assumes "create_accessibility_issue uid issue_data url = Inr issue"
  shows "issue_type issue = ACCESSIBILITY \<and> confidence issue = 9 / 10 \<and> issue_id issue = uid \<and>
         (\<exists>tag. py_getitem issue_data ''type'' = Inr tag \<and>
                tag_get severity_map tag MEDIUM = Inr (severity issue) \<and>
                get_issue_title tag = Inr (title issue))"
  using assms unfolding create_accessibility_issue_def case_sum_Inr_iff
  by clarsimp

lemma create_issue_ok:
  assumes "spec_raw_observation obs"
  shows "\<exists>issue. create_accessibility_issue uid obs url = Inr issue"
proof -
  from assms obtain d where obs: "obs = PyDict d"
    by (cases obs) (simp_all add: spec_raw_observation_def)
  with assms have
    t': "(case map_of d ''type'' of Some tag \<Rightarrow> hashable tag | None \<Rightarrow> False)" and
    e': "(case map_of d ''element'' of Some el \<Rightarrow> is_dict el | None \<Rightarrow> False)" and
    m': "map_of d ''message'' \<noteq> None"
    by (simp_all add: spec_raw_observation_def)
  from t' obtain tag where t: "map_of d ''type'' = Some tag" and h: "hashable tag"
    by (cases "map_of d ''type''") simp_all
  from e' obtain x where x: "map_of d ''element'' = Some x" and "is_dict x"
    by (cases "map_of d ''element''") simp_all
  then obtain el where e: "map_of d ''element'' = Some (PyDict el)"
    by (cases x) (simp_all add: is_dict_def)
  from m' obtain msg where m: "map_of d ''message'' = Some msg" by blast
  from tag_get_hashable [OF h, of severity_map MEDIUM]
  obtain sev where sev: "tag_get severity_map tag MEDIUM = Inr sev" by blast
  have "\<exists>v. get_issue_title tag = Inr v"
    unfolding get_issue_title_def using h by (rule tag_get_hashable)
  then obtain ttl where ttl: "get_issue_title tag = Inr ttl" by blast
  have "\<exists>v. get_expected_behavior tag = Inr v"
    unfolding get_expected_behavior_def using h by (rule tag_get_hashable)
  then obtain ex where ex: "get_expected_behavior tag = Inr ex" by blast
  have "\<exists>v. get_wcag_guideline tag = Inr v"
    unfolding get_wcag_guideline_def using h by (rule tag_get_hashable)
  then obtain g where g: "get_wcag_guideline tag = Inr g" by blast
  show ?thesis
    unfolding create_accessibility_issue_def
    by (simp add: obs py_getitem_def py_get_def t e m sev ttl ex g)
qed

lemma detect_issues_loop_ok:
  assumes "list_all spec_raw_observation obs"
      and "obs \<noteq> [] \<longrightarrow> map_of page_data ''url'' \<noteq> None"
  shows "\<exists>new. detect_issues_loop uuids n page_data obs issues = Inr (issues @ new) \<and>
           length new = length obs \<and>
           (\<forall>k < length obs. create_accessibility_issue (uuids (n + k)) (obs ! k)
                                (dict_get page_data ''url'' PyNone) = Inr (new ! k))"
  using assms
proof (induction obs arbitrary: n issues)
  case Nil
  show ?case by simp
next
  case (Cons ob obs)
  from Cons.prems(2) obtain url where url: "map_of page_data ''url'' = Some url" by auto
  then have dg: "dict_get page_data ''url'' PyNone = url" by (simp add: dict_get_def)
  from Cons.prems(1) have ob: "spec_raw_observation ob" and rest: "list_all spec_raw_observation obs"
    by simp_all
  from create_issue_ok [OF ob] obtain issue where
    issue: "create_accessibility_issue (uuids n) ob url = Inr issue" by blast
  from url have "obs \<noteq> [] \<longrightarrow> map_of page_data ''url'' \<noteq> None" by simp
  from Cons.IH [OF rest this, of "Suc n" "issues @ [issue]"] obtain new where
    new: "detect_issues_loop uuids (Suc n) page_data obs (issues @ [issue]) = Inr ((issues @ [issue]) @ new)"
    and len: "length new = length obs"
    and each: "\<forall>k < length obs. create_accessibility_issue (uuids (Suc n + k)) (obs ! k)
                                (dict_get page_data ''url'' PyNone) = Inr (new ! k)"
    by blast
  have "detect_issues_loop uuids n page_data (ob # obs) issues = Inr (issues @ (issue # new))"
    using new issue url by (simp add: py_getitem_def)
  moreover have "length (issue # new) = length (ob # obs)" using len by simp
  moreover have "\<forall>k < length (ob # obs). create_accessibility_issue (uuids (n + k)) ((ob # obs) ! k)
                                (dict_get page_data ''url'' PyNone) = Inr ((issue # new) ! k)"
  proof (intro allI impI)
    fix k assume k: "k < length (ob # obs)"
    show "create_accessibility_issue (uuids (n + k)) ((ob # obs) ! k)
             (dict_get page_data ''url'' PyNone) = Inr ((issue # new) ! k)"
    proof (cases k)
      case 0
      with issue dg show ?thesis by simp
    next
      case (Suc j)
      with k each show ?thesis by simp
    qed
  qed
  ultimately show ?case by blast
qed

lemma detect_issues_loop_members:
  "detect_issues_loop uuids n page_data obs issues = Inr result \<Longrightarrow>
   \<forall>i \<in> set issues. P i \<Longrightarrow>
   (\<And>uid ob url i. create_accessibility_issue uid ob url = Inr i \<Longrightarrow> P i) \<Longrightarrow>
   \<forall>i \<in> set result. P i"
proof (induction obs arbitrary: n issues)
  case Nil
  then show ?case by simp
next
  case (Cons ob obs)
  from Cons.prems(1) obtain url issue where
    "create_accessibility_issue (uuids n) ob url = Inr issue" and
    rest: "detect_issues_loop uuids (Suc n) page_data obs (issues @ [issue]) = Inr result"
    by (auto simp: case_sum_Inr_iff)
  then have "P issue" using Cons.prems(3) by blast
  with Cons.prems(2) have "\<forall>i \<in> set (issues @ [issue]). P i" by simp
  from Cons.IH [OF rest this Cons.prems(3)] show ?case by simp
qed

lemma detect_issues_without_url:
  assumes "map_of page_data ''accessibility'' = Some (PyDict acc)"
      and "dict_get acc ''issues'' (PyList []) = PyList (ob # obs)"
      and "map_of page_data ''url'' = None"
  shows "detect_issues uuids page_data = Inl (KeyError ''url'')"
  using assms by (simp add: detect_issues_def py_get_def py_iter_def py_getitem_def)

lemma detect_issues_entry_not_a_dict:
  assumes "map_of page_data ''accessibility'' = Some v" and "\<not> is_dict v"
  shows "detect_issues uuids page_data = Inl AttributeError"
  using assms by (cases v) (simp_all add: detect_issues_def py_get_def is_dict_def)

text \<open>
  C9. On a snapshot without an \<open>accessibility\<close> entry, \<open>detect_issues\<close> returns the empty
  list. On a snapshot whose entry is a dictionary with a list of raw observations (each a
  dictionary with a type tag, an element dictionary and a message), and which holds the
  page URL when there is an observation, it returns one issue per observation: the
  \<open>k\<close>-th issue is the one created from the \<open>k\<close>-th observation.
\<close>

theorem detect_issues_per_observation:
  "(map_of page_data ''accessibility'' = None \<longrightarrow> detect_issues uuids page_data = Inr []) \<and>
   (map_of page_data ''accessibility'' = Some (PyDict acc) \<and>
    dict_get acc ''issues'' (PyList []) = PyList obs \<and>
    list_all spec_raw_observation obs \<and>
    (obs \<noteq> [] \<longrightarrow> map_of page_data ''url'' \<noteq> None) \<longrightarrow>
    (\<exists>issues. detect_issues uuids page_data = Inr issues \<and> length issues = length obs \<and>
       (\<forall>k < length obs. create_accessibility_issue (uuids k) (obs ! k)
                            (dict_get page_data ''url'' PyNone) = Inr (issues ! k))))"
proof (intro conjI impI)
  assume "map_of page_data ''accessibility'' = None"
  then show "detect_issues uuids page_data = Inr []"
    by (simp add: detect_issues_def)
next
  assume a: "map_of page_data ''accessibility'' = Some (PyDict acc) \<and>
    dict_get acc ''issues'' (PyList []) = PyList obs \<and>
    list_all spec_raw_observation obs \<and>
    (obs \<noteq> [] \<longrightarrow> map_of page_data ''url'' \<noteq> None)"
  then have wf: "list_all spec_raw_observation obs"
    and url: "obs \<noteq> [] \<longrightarrow> map_of page_data ''url'' \<noteq> None" by simp_all
  from detect_issues_loop_ok [OF wf url, of uuids 0 "[]"] obtain new where
    "detect_issues_loop uuids 0 page_data obs [] = Inr new" and "length new = length obs"
    and "\<forall>k < length obs. create_accessibility_issue (uuids k) (obs ! k)
                                (dict_get page_data ''url'' PyNone) = Inr (new ! k)"
    by auto
  moreover have "detect_issues uuids page_data = detect_issues_loop uuids 0 page_data obs []"
    using a by (simp add: detect_issues_def py_get_def py_iter_def)
  ultimately show "\<exists>issues. detect_issues uuids page_data = Inr issues \<and> length issues = length obs \<and>
       (\<forall>k < length obs. create_accessibility_issue (uuids k) (obs ! k)
                            (dict_get page_data ''url'' PyNone) = Inr (issues ! k))"
    by auto
qed

lemma demo_snapshot_lookups:
  "map_of demo_snapshot ''accessibility'' =
     Some (PyDict [(''issues'', PyList [known_observation, unknown_observation])])"
  "map_of demo_snapshot ''url'' \<noteq> None"
  "map_of [(''url'', PyStr ''https://example.com'')] ''accessibility'' = None"
  "dict_get [(''issues'', PyList [known_observation, unknown_observation])] ''issues'' (PyList []) =
     PyList [known_observation, unknown_observation]"
  by (simp_all add: demo_snapshot_def dict_get_def)

lemma demo_observations:
  "spec_raw_observation known_observation" "spec_raw_observation unknown_observation"
  by (simp_all add: known_observation_def unknown_observation_def spec_raw_observation_def
      hashable_def is_dict_def)

theorem detect_issues_per_observation_witness:
  "detect_issues (\<lambda>n. ''uuid'') [(''url'', PyStr ''https://example.com'')] = Inr [] \<and>
   (\<exists>issues. detect_issues (\<lambda>n. ''uuid'') demo_snapshot = Inr issues \<and> length issues = 2)"
proof
  show "detect_issues (\<lambda>n. ''uuid'') [(''url'', PyStr ''https://example.com'')] = Inr []"
    by (rule detect_issues_per_observation [THEN conjunct1, THEN mp])
       (rule demo_snapshot_lookups(3))
next
  have wf: "list_all spec_raw_observation [known_observation, unknown_observation]"
    by (simp add: demo_observations)
  have url: "[known_observation, unknown_observation] \<noteq> [] \<longrightarrow> map_of demo_snapshot ''url'' \<noteq> None"
    by (simp add: demo_snapshot_lookups(2))
  have "\<exists>issues. detect_issues (\<lambda>n. ''uuid'') demo_snapshot = Inr issues \<and>
          length issues = length [known_observation, unknown_observation] \<and>
          (\<forall>k < length [known_observation, unknown_observation].
             create_accessibility_issue ((\<lambda>n. ''uuid'') k) ([known_observation, unknown_observation] ! k)
               (dict_get demo_snapshot ''url'' PyNone) = Inr (issues ! k))"
    by (rule detect_issues_per_observation [THEN conjunct2, THEN mp])
       (rule conjI [OF demo_snapshot_lookups(1) conjI [OF demo_snapshot_lookups(4) conjI [OF wf url]]])
  then obtain issues where "detect_issues (\<lambda>n. ''uuid'') demo_snapshot = Inr issues"
    and "length issues = length [known_observation, unknown_observation]"
    by (elim exE conjE)
  then have "detect_issues (\<lambda>n. ''uuid'') demo_snapshot = Inr issues \<and> length issues = 2"
    by simp
  then show "\<exists>issues. detect_issues (\<lambda>n. ''uuid'') demo_snapshot = Inr issues \<and> length issues = 2" ..
qed

text \<open>
  C10. Every issue the accessibility detector constructs has type accessibility and
  confidence 9/10, which lies between 0 and 1; when the type tag of the observation is
  none of the four known tags, the issue has severity medium and the title
  \<open>Accessibility Issue\<close>. An issue is constructed from every raw observation, and the
  issues \<open>detect_issues\<close> returns all have that type and confidence.
\<close>

theorem accessibility_issue_fields:
  "(create_accessibility_issue uid issue_data url = Inr issue \<longrightarrow>
      issue_type issue = ACCESSIBILITY \<and> confidence issue = 9 / 10 \<and>
      0 \<le> confidence issue \<and> confidence issue \<le> 1 \<and>
      (\<forall>tag. py_getitem issue_data ''type'' = Inr tag \<and> tag \<notin> PyStr ` set known_tags \<longrightarrow>
         severity issue = MEDIUM \<and> title issue = ''Accessibility Issue'')) \<and>
   (spec_raw_observation issue_data \<longrightarrow>
      (\<exists>i. create_accessibility_issue uid issue_data url = Inr i)) \<and>
   (detect_issues uuids page_data = Inr issues \<longrightarrow>
      (\<forall>i \<in> set issues. issue_type i = ACCESSIBILITY \<and> confidence i = 9 / 10))"
proof (intro conjI impI allI)
  assume c: "create_accessibility_issue uid issue_data url = Inr issue"
  note f = create_issue_fields [OF c]
  from f show "issue_type issue = ACCESSIBILITY" by simp
  from f show "confidence issue = 9 / 10" by simp
  from f show "0 \<le> confidence issue" by simp
  from f show "confidence issue \<le> 1" by simp
  fix tag assume t: "py_getitem issue_data ''type'' = Inr tag \<and> tag \<notin> PyStr ` set known_tags"
  with f have sev: "tag_get severity_map tag MEDIUM = Inr (severity issue)"
    and ttl: "get_issue_title tag = Inr (title issue)" by auto
  from t have "tag \<notin> PyStr ` fst ` set severity_map"
    by (simp add: known_tags_def severity_map_def)
  with sev show "severity issue = MEDIUM" by (rule tag_get_unknown)
  from t have "tag \<notin> PyStr ` fst ` set
       [(''missing_alt_text'', ''Image Missing Alt Text''),
        (''keyboard_accessibility'', ''Element Not Keyboard Accessible''),
        (''color_contrast'', ''Insufficient Color Contrast''),
        (''heading_structure'', ''Improper Heading Structure'')]"
    by (simp add: known_tags_def)
  with ttl [unfolded get_issue_title_def] show "title issue = ''Accessibility Issue''"
    by (rule tag_get_unknown)
next
  assume "spec_raw_observation issue_data"
  then show "\<exists>i. create_accessibility_issue uid issue_data url = Inr i"
    by (rule create_issue_ok)
next
  assume d: "detect_issues uuids page_data = Inr issues"
  show "\<forall>i \<in> set issues. issue_type i = ACCESSIBILITY \<and> confidence i = 9 / 10"
  proof (cases "map_of page_data ''accessibility''")
    case None
    with d show ?thesis by (simp add: detect_issues_def)
  next
    case (Some a)
    with d obtain items where "detect_issues_loop uuids 0 page_data items [] = Inr issues"
      by (auto simp: detect_issues_def case_sum_Inr_iff)
    then show ?thesis
    proof (rule detect_issues_loop_members)
      show "\<forall>i \<in> set []. issue_type i = ACCESSIBILITY \<and> confidence i = 9 / 10" by simp
    next
      fix uid ob url i
      assume "create_accessibility_issue uid ob url = Inr i"
      from create_issue_fields [OF this]
      show "issue_type i = ACCESSIBILITY \<and> confidence i = 9 / 10" by simp
    qed
  qed
qed

lemma unknown_observation_tag:
  "py_getitem unknown_observation ''type'' = Inr (PyStr ''aria_role'') \<and>
   PyStr ''aria_role'' \<notin> PyStr ` set known_tags"
  by (simp add: unknown_observation_def py_getitem_def known_tags_def image_iff)

theorem accessibility_issue_fields_witness:
  "\<exists>issue. create_accessibility_issue ''uuid'' unknown_observation (PyStr ''https://example.com'') =
             Inr issue \<and>
     issue_type issue = ACCESSIBILITY \<and> confidence issue = 9 / 10 \<and>
     severity issue = MEDIUM \<and> title issue = ''Accessibility Issue''"
proof -
  have "\<exists>i. create_accessibility_issue ''uuid'' unknown_observation (PyStr ''https://example.com'') = Inr i"
    by (rule accessibility_issue_fields [THEN conjunct2, THEN conjunct1, THEN mp])
       (rule demo_observations(2))
  then obtain issue where
    c: "create_accessibility_issue ''uuid'' unknown_observation (PyStr ''https://example.com'') = Inr issue" ..
  note f = accessibility_issue_fields [THEN conjunct1, THEN mp, OF c]
  from f have a: "issue_type issue = ACCESSIBILITY" and b: "confidence issue = 9 / 10"
    by simp_all
  from f unknown_observation_tag
  have "severity issue = MEDIUM \<and> title issue = ''Accessibility Issue''"
    by blast
  with c a b show ?thesis by blast
qed

section \<open>The range of the scores\<close>

lemma floor_score_range: "0 \<le> p \<Longrightarrow> 0 \<le> max 0 (100 - p) \<and> max 0 (100 - p) \<le> (100::int)"
  by simp

lemma penalty_sum_nonneg: "(\<And>x. 0 \<le> f x) \<Longrightarrow> 0 \<le> sum_list (map f xs)" for f :: "'a \<Rightarrow> int"
  by (induction xs) simp_all

lemma spec_penalty_nonneg: "0 \<le> spec_penalty c s"
  by (cases c; cases s) simp_all

lemma spec_category_score_range:
  "0 \<le> spec_category_score c issues \<and> spec_category_score c issues \<le> 100"
proof -
  have "0 \<le> (\<Sum>i \<leftarrow> filter (\<lambda>i. issue_type i = category_type c) issues. spec_penalty c (severity i))"
    by (rule penalty_sum_nonneg) (rule spec_penalty_nonneg)
  from floor_score_range [OF this] show ?thesis
    by (simp add: spec_category_score_def)
qed

lemma category_score_ranges:
  "0 \<le> calculate_accessibility_score issues \<and> calculate_accessibility_score issues \<le> 100 \<and>
   0 \<le> calculate_security_score issues \<and> calculate_security_score issues \<le> 100 \<and>
   0 \<le> calculate_ux_score issues \<and> calculate_ux_score issues \<le> 100"
proof -
  have eqs: "calculate_accessibility_score issues = spec_category_score Accessibility issues"
    "calculate_security_score issues = spec_category_score Security issues"
    "calculate_ux_score issues = spec_category_score Ux issues"
    by (simp_all add: calculate_accessibility_score_def calculate_security_score_def
        calculate_ux_score_def spec_category_score_def Let_def penalty_acc penalty_sec penalty_ux
        filter_empty_image)
  show ?thesis
    unfolding eqs
    using spec_category_score_range [of Accessibility issues]
          spec_category_score_range [of Security issues]
          spec_category_score_range [of Ux issues]
    by simp
qed

text \<open>
  C5, as the code has it. Whenever the metrics are computed, the quality, accessibility,
  security and ux scores lie between 0 and 100. The performance score is the score the
  bundle's \<open>performance\<close> entry supplies, passed on as it is, and 100 when none is
  supplied: it lies between 0 and 100 exactly when the bundle supplies no score or supplies
  a number in that range. The counterexample is a bundle that supplies the score 150.
\<close>

theorem metrics_scores_in_range:
  assumes "performance_lookup_ok analysis"
  shows "\<exists>m. calculate_metrics issues analysis = Inr m \<and>
           0 \<le> quality_score m \<and> quality_score m \<le> 100 \<and>
           0 \<le> accessibility_score m \<and> accessibility_score m \<le> 100 \<and>
           0 \<le> security_score m \<and> security_score m \<le> 100 \<and>
           0 \<le> ux_score m \<and> ux_score m \<le> 100 \<and>
           performance_score m =
             (case map_of analysis ''performance'' of
                Some (PyDict d) \<Rightarrow> (case map_of d ''score'' of Some v \<Rightarrow> v | None \<Rightarrow> PyInt 100)
              | _ \<Rightarrow> PyInt 100) \<and>
           (spec_score_in_range (performance_score m) \<longleftrightarrow>
              (case map_of analysis ''performance'' of
                 Some (PyDict d) \<Rightarrow>
                   (case map_of d ''score'' of Some v \<Rightarrow> spec_score_in_range v | None \<Rightarrow> True)
               | _ \<Rightarrow> True))"
proof -
  from calculate_metrics_returns [OF assms, of issues] obtain m where
    m: "calculate_metrics issues analysis = Inr m" and
    q: "quality_score m =
             max 0 (100 - (int (length (filter (\<lambda>i. severity i = CRITICAL) issues)) * 25
                           + int (length (filter (\<lambda>i. severity i = HIGH) issues)) * 10
                           + int (length issues) * 2))" and
    a: "accessibility_score m = calculate_accessibility_score issues" and
    s: "security_score m = calculate_security_score issues" and
    u: "ux_score m = calculate_ux_score issues" and
    p: "performance_score m =
             (case map_of analysis ''performance'' of
                Some (PyDict d) \<Rightarrow> dict_get d ''score'' (PyInt 100)
              | _ \<Rightarrow> PyInt 100)"
    by blast
  have qr: "0 \<le> quality_score m \<and> quality_score m \<le> 100"
    unfolding q by (rule floor_score_range) simp
  have pr: "spec_score_in_range (performance_score m) \<longleftrightarrow>
              (case map_of analysis ''performance'' of
                 Some (PyDict d) \<Rightarrow>
                   (case map_of d ''score'' of Some v \<Rightarrow> spec_score_in_range v | None \<Rightarrow> True)
               | _ \<Rightarrow> True)"
    unfolding p
    by (simp add: spec_score_in_range_def dict_get_def split: option.splits pyval.splits)
  have pv: "performance_score m =
             (case map_of analysis ''performance'' of
                Some (PyDict d) \<Rightarrow> (case map_of d ''score'' of Some v \<Rightarrow> v | None \<Rightarrow> PyInt 100)
              | _ \<Rightarrow> PyInt 100)"
    unfolding p by (simp add: dict_get_def split: option.splits pyval.splits)
  from category_score_ranges [of issues]
  have cr: "0 \<le> accessibility_score m \<and> accessibility_score m \<le> 100 \<and>
            0 \<le> security_score m \<and> security_score m \<le> 100 \<and>
            0 \<le> ux_score m \<and> ux_score m \<le> 100"
    by (simp add: a s u)
  from m qr cr pv pr show ?thesis by blast
qed

theorem metrics_scores_in_range_witness:
  "performance_lookup_ok [(''performance'', PyDict [(''score'', PyInt 85)])] \<and>
   (\<exists>m. calculate_metrics (replicate 10 (sample_issue SECURITY CRITICAL ''s''))
          [(''performance'', PyDict [(''score'', PyInt 85)])] = Inr m \<and>
        quality_score m = 0 \<and> security_score m = 0 \<and> accessibility_score m = 100 \<and>
        performance_score m = PyInt 85 \<and> spec_score_in_range (performance_score m))"
proof -
  have ok: "performance_lookup_ok [(''performance'', PyDict [(''score'', PyInt 85)])]"
    by (simp add: performance_lookup_ok_def)
  have r: "replicate 10 x = [x, x, x, x, x, x, x, x, x, x]" for x :: QAIssue
    by (simp add: numeral_eq_Suc)
  from metrics_scores_in_range [OF ok, of "replicate 10 (sample_issue SECURITY CRITICAL ''s'')"]
  obtain m where
    m: "calculate_metrics (replicate 10 (sample_issue SECURITY CRITICAL ''s''))
          [(''performance'', PyDict [(''score'', PyInt 85)])] = Inr m"
    and v: "performance_score m = PyInt 85"
    by auto
  from v have p: "spec_score_in_range (performance_score m)"
    by (simp add: spec_score_in_range_def)
  from calculate_metrics_returns [OF ok, of "replicate 10 (sample_issue SECURITY CRITICAL ''s'')"] m
  have "quality_score m = 0 \<and> security_score m = 0 \<and> accessibility_score m = 100"
    by (auto simp: r sample_issue_def calculate_security_score_def calculate_accessibility_score_def)
  with ok m v p show ?thesis by blast
qed

theorem metrics_scores_in_range_counterexample:
  "calculate_metrics [] [(''performance'', PyDict [(''score'', PyInt 150)])] =
     Inr \<lparr>quality_score = 100, accessibility_score = 100, performance_score = PyInt 150,
          security_score = 100, ux_score = 100\<rparr> \<and>
   \<not> spec_score_in_range (PyInt 150)"
  by (simp add: calculate_metrics_def dict_get_def py_get_def spec_score_in_range_def
      calculate_accessibility_score_def calculate_security_score_def calculate_ux_score_def)


section \<open>Enabled detectors\<close>

lemma AccessibilityDetector_init_enabled:
  assumes "AccessibilityDetector_init cfg = Inr d"
  shows "is_enabled d = spec_enabled_flag cfg"
proof (cases "truthy cfg")
  case True
  with assms show ?thesis
    by (cases cfg)
       (auto simp: AccessibilityDetector_init_def py_get_def is_enabled_def spec_enabled_flag_def)
next
  case False
  with assms have d: "is_enabled d = PyBool True"
    by (auto simp: AccessibilityDetector_init_def py_get_def is_enabled_def dict_get_def)
  from False have "spec_enabled_flag cfg = PyBool True"
    by (cases cfg) (auto simp: truthy_def spec_enabled_flag_def dict_get_def)
  with d show ?thesis by simp
qed

lemma load_detectors_enabled:
  assumes "load_detectors V S uuids cfg = Inr ds"
  shows "\<exists>a p v s. ds = [a, p, v, s] \<and>
           det_class_name a = ''AccessibilityDetector'' \<and>
           det_is_enabled a = spec_enabled_flag (dict_get cfg ''accessibility'' (PyDict [])) \<and>
           det_class_name p = ''PerformanceDetector'' \<and>
           det_is_enabled p = PyBool False"
proof -
  from assms obtain a v s where
    a: "AccessibilityDetector_init (dict_get cfg ''accessibility'' (PyDict [])) = Inr a" and
    ds: "ds = [accessibility_detector uuids a,
               performance_detector (PerformanceDetector_init (dict_get cfg ''performance'' (PyDict []))),
               v, s]"
    unfolding load_detectors_def Let_def case_sum_Inr_iff by auto
  from AccessibilityDetector_init_enabled [OF a] ds show ?thesis
    by (simp add: accessibility_detector_def performance_detector_def perf_is_enabled_def)
qed

text \<open>
  C8, as the code has it. The accessibility detector's \<open>is_enabled\<close> is the \<open>enabled\<close>
  entry of its own options, enabled when the options do not say; the performance
  detector's \<open>is_enabled\<close> is false whatever its options; the registry builds each from its
  own entry of the configuration; and the detection phase creates one task for each
  detector whose \<open>is_enabled\<close> is true, in the order of the registry, and for no other.
  The counterexample is a performance detector whose options enable it.
\<close>

theorem detectors_enabled:
  "(AccessibilityDetector_init cfg = Inr d \<longrightarrow> is_enabled d = spec_enabled_flag cfg) \<and>
   perf_is_enabled (PerformanceDetector_init cfg) = PyBool False \<and>
   create_tasks dets [] = filter (\<lambda>d. truthy (det_is_enabled d)) dets \<and>
   gather (create_tasks dets []) page_data =
     map (\<lambda>d. det_detect_issues d page_data) (filter (\<lambda>d. truthy (det_is_enabled d)) dets) \<and>
   (load_detectors V S uuids conf = Inr ds \<longrightarrow>
      (\<exists>a p v s. ds = [a, p, v, s] \<and>
         det_is_enabled a = spec_enabled_flag (dict_get conf ''accessibility'' (PyDict [])) \<and>
         det_is_enabled p = PyBool False))"
proof (intro conjI impI)
  assume "AccessibilityDetector_init cfg = Inr d"
  then show "is_enabled d = spec_enabled_flag cfg" by (rule AccessibilityDetector_init_enabled)
next
  show "perf_is_enabled (PerformanceDetector_init cfg) = PyBool False"
    by (simp add: perf_is_enabled_def)
next
  show t: "create_tasks dets [] = filter (\<lambda>d. truthy (det_is_enabled d)) dets"
    by (simp add: create_tasks_filter)
  show "gather (create_tasks dets []) page_data =
     map (\<lambda>d. det_detect_issues d page_data) (filter (\<lambda>d. truthy (det_is_enabled d)) dets)"
    unfolding t by (simp add: gather_def)
next
  assume "load_detectors V S uuids conf = Inr ds"
  from load_detectors_enabled [OF this]
  show "\<exists>a p v s. ds = [a, p, v, s] \<and>
         det_is_enabled a = spec_enabled_flag (dict_get conf ''accessibility'' (PyDict [])) \<and>
         det_is_enabled p = PyBool False"
    by blast
qed

lemma demo_init:
  "AccessibilityDetector_init (PyDict [(''enabled'', PyBool False)]) =
     Inr \<lparr>acc_config = PyDict [(''enabled'', PyBool False)], acc_enabled = PyBool False\<rparr>"
  by (simp add: AccessibilityDetector_init_def py_get_def truthy_def dict_get_def)

lemma demo_load:
  "\<exists>ds. load_detectors (\<lambda>cfg. Inr failing_detector) (\<lambda>cfg. Inr failing_detector) (\<lambda>n. ''uuid'')
          [(''accessibility'', PyDict [(''enabled'', PyBool False)])] = Inr ds"
  by (simp add: load_detectors_def dict_get_def demo_init)

theorem detectors_enabled_witness:
  "is_enabled \<lparr>acc_config = PyDict [(''enabled'', PyBool False)], acc_enabled = PyBool False\<rparr> =
     PyBool False \<and>
   (\<exists>ds. load_detectors (\<lambda>cfg. Inr failing_detector) (\<lambda>cfg. Inr failing_detector) (\<lambda>n. ''uuid'')
          [(''accessibility'', PyDict [(''enabled'', PyBool False)])] = Inr ds \<and>
        det_is_enabled (ds ! 0) = PyBool False \<and> det_is_enabled (ds ! 1) = PyBool False \<and>
        map det_class_name (create_tasks ds []) = [''VisualDetector'', ''VisualDetector''])"
proof -
  let ?cfg = "PyDict [(''enabled'', PyBool False)]"
  let ?d = "\<lparr>acc_config = ?cfg, acc_enabled = PyBool False\<rparr>"
  have flag: "spec_enabled_flag ?cfg = PyBool False"
    by (simp add: spec_enabled_flag_def dict_get_def)
  have flag': "spec_enabled_flag (dict_get [(''accessibility'', ?cfg)] ''accessibility'' (PyDict [])) =
      PyBool False"
    by (simp add: spec_enabled_flag_def dict_get_def)
  from detectors_enabled [of ?cfg ?d] demo_init flag
  have w1: "is_enabled ?d = PyBool False" by simp
  from demo_load obtain ds where
    ds: "load_detectors (\<lambda>cfg. Inr failing_detector) (\<lambda>cfg. Inr failing_detector) (\<lambda>n. ''uuid'')
          [(''accessibility'', ?cfg)] = Inr ds" ..
  from detectors_enabled [of _ _ _ _ "\<lambda>cfg. Inr failing_detector" "\<lambda>cfg. Inr failing_detector"
         "\<lambda>n. ''uuid''" "[(''accessibility'', ?cfg)]" ds] ds
  obtain a p v s where shape: "ds = [a, p, v, s]"
    and ea: "det_is_enabled a = PyBool False" and ep: "det_is_enabled p = PyBool False"
    unfolding flag' by blast
  from ds shape have vs: "v = failing_detector" "s = failing_detector"
    by (simp_all add: load_detectors_def dict_get_def demo_init)
  from detectors_enabled [of _ _ ds]
  have "create_tasks ds [] = filter (\<lambda>d. truthy (det_is_enabled d)) ds" by blast
  with shape ea ep vs have "map det_class_name (create_tasks ds []) = [''VisualDetector'', ''VisualDetector'']"
    by (simp add: truthy_def failing_detector_def)
  with w1 ds shape ea ep show ?thesis by auto
qed

theorem detectors_enabled_counterexample:
  "perf_is_enabled (PerformanceDetector_init (PyDict [(''enabled'', PyBool True)])) = PyBool False \<and>
   spec_enabled_flag (PyDict [(''enabled'', PyBool True)]) = PyBool True \<and>
   create_tasks [performance_detector (PerformanceDetector_init (PyDict [(''enabled'', PyBool True)]))] [] = []"
  by (simp add: perf_is_enabled_def spec_enabled_flag_def dict_get_def performance_detector_def
      truthy_def)

end
